theory Spec2Isabelle
  imports Complex_Main "HOL-Library.Sublist"
begin

section \<open>Stop-side GPIO controller (src/raspberry/gpio_controller.py)\<close>

text \<open>
  Times are the values of \<^verbatim>\<open>time.time()\<close> and the arguments of \<^verbatim>\<open>time.sleep\<close>;
  they are modelled as exact reals. Dictionaries are maps, \<^verbatim>\<open>d.get(k, v)\<close> is a
  case distinction on the lookup.
\<close>

type_synonym route_id = string

text \<open>
  The configuration of one route is a dictionary read from \<^verbatim>\<open>ROUTES_CONFIG\<close>. Its keys
  \<^verbatim>\<open>name\<close>, \<^verbatim>\<open>button_pin\<close> and \<^verbatim>\<open>led_pin\<close> are read by \<^verbatim>\<open>Config.print_config\<close> when the
  system starts, outside any handler, so a system that has started has them. The key
  \<^verbatim>\<open>color\<close> is first read when a button is pressed and may be missing.
\<close>

record route_config =
  name :: string
  color :: "string option"
  button_pin :: int
  led_pin :: int

text \<open>
  What the controller reads from outside itself: the module flag
  \<^verbatim>\<open>GPIO_AVAILABLE\<close>, \<^verbatim>\<open>Config.DEBOUNCE_TIME\<close>, and the behaviour of the library call
  \<^verbatim>\<open>GPIO.output(pin, level)\<close>, of which the controller only observes whether it
  returns or raises.
\<close>

record gpio_env =
  GPIO_AVAILABLE :: bool
  DEBOUNCE_TIME :: real
  output_raises :: "int \<Rightarrow> bool \<Rightarrow> bool"

record 'cb gpio_controller =
  routes_config :: "route_id \<rightharpoonup> route_config"
  button_states :: "route_id \<rightharpoonup> bool"
  led_states :: "route_id \<rightharpoonup> bool"
  button_callbacks :: "route_id \<rightharpoonup> 'cb"
  last_button_press :: "route_id \<rightharpoonup> real"
  initialized :: bool

text \<open>\<^verbatim>\<open>GPIOController.__init__\<close>, with the value of \<^verbatim>\<open>Config.get_routes_config()\<close>.\<close>

definition gpio_init :: "(route_id \<rightharpoonup> route_config) \<Rightarrow> 'cb gpio_controller" where
  "gpio_init routes =
     \<lparr>routes_config = routes, button_states = Map.empty, led_states = Map.empty,
      button_callbacks = Map.empty, last_button_press = Map.empty, initialized = False\<rparr>"

text \<open>
  The body of the loop of \<^verbatim>\<open>initialize\<close> for one route, after the pin setup calls:
  the three state entries of the route are reset.
\<close>

definition initialize_route :: "'cb gpio_controller \<Rightarrow> route_id \<Rightarrow> 'cb gpio_controller" where
  "initialize_route s route_id =
     s\<lparr>button_states := (button_states s)(route_id \<mapsto> False),
       led_states := (led_states s)(route_id \<mapsto> False),
       last_button_press := (last_button_press s)(route_id \<mapsto> 0)\<rparr>"

definition register_button_callback ::
  "'cb gpio_controller \<Rightarrow> route_id \<Rightarrow> 'cb \<Rightarrow> 'cb gpio_controller" where
  "register_button_callback s route_id callback =
     s\<lparr>button_callbacks := (button_callbacks s)(route_id \<mapsto> callback)\<rparr>"

text \<open>
  \<^verbatim>\<open>set_led\<close>: an unknown route returns \<^verbatim>\<open>False\<close> at once; in mock mode the state is
  stored without a hardware write; otherwise the pin is written first, and an
  exception of the write is caught: \<^verbatim>\<open>False\<close> is returned and the state is not stored.
\<close>

definition set_led ::
  "gpio_env \<Rightarrow> 'cb gpio_controller \<Rightarrow> route_id \<Rightarrow> bool \<Rightarrow> bool \<times> 'cb gpio_controller" where
  "set_led env s route_id state =
     (case routes_config s route_id of
        None \<Rightarrow> (False, s)
      | Some cfg \<Rightarrow>
          if \<not> GPIO_AVAILABLE env
          then (True, s\<lparr>led_states := (led_states s)(route_id \<mapsto> state)\<rparr>)
          else if output_raises env (led_pin cfg) state then (False, s)
          else (True, s\<lparr>led_states := (led_states s)(route_id \<mapsto> state)\<rparr>))"

definition get_led_state :: "'cb gpio_controller \<Rightarrow> route_id \<Rightarrow> bool" where
  "get_led_state s route_id = (case led_states s route_id of None \<Rightarrow> False | Some b \<Rightarrow> b)"

definition get_button_state :: "'cb gpio_controller \<Rightarrow> route_id \<Rightarrow> bool" where
  "get_button_state s route_id =
     (case button_states s route_id of None \<Rightarrow> False | Some b \<Rightarrow> b)"

definition toggle_led ::
  "gpio_env \<Rightarrow> 'cb gpio_controller \<Rightarrow> route_id \<Rightarrow> bool \<times> 'cb gpio_controller" where
  "toggle_led env s route_id =
     (let current_state = (case led_states s route_id of None \<Rightarrow> False | Some b \<Rightarrow> b)
      in set_led env s route_id (\<not> current_state))"

text \<open>
  \<^verbatim>\<open>_button_callback\<close> at clock reading \<open>current_time\<close>, compared with
  \<^verbatim>\<open>last_button_press.get(route_id, 0)\<close>. The result is the new
  controller state and the thread it starts, if any: the registered callback with
  its arguments. A route missing from \<^verbatim>\<open>routes_config\<close> raises \<^verbatim>\<open>KeyError\<close> after the
  two stores; the handler catches it, so the stores stay and nothing is started.
\<close>

definition button_callback ::
  "gpio_env \<Rightarrow> real \<Rightarrow> 'cb gpio_controller \<Rightarrow> route_id \<Rightarrow> int \<Rightarrow>
   'cb gpio_controller \<times> ('cb \<times> route_id \<times> route_config) option" where
  "button_callback env current_time s route_id channel =
     (if current_time - (case last_button_press s route_id of None \<Rightarrow> 0 | Some t \<Rightarrow> t)
           < DEBOUNCE_TIME env
      then (s, None)
      else
        let s1 = s\<lparr>last_button_press := (last_button_press s)(route_id \<mapsto> current_time)\<rparr>;
            s2 = s1\<lparr>button_states := (button_states s1)(route_id \<mapsto> True)\<rparr>
        in case routes_config s2 route_id of
             None \<Rightarrow> (s2, None)
           | Some cfg \<Rightarrow>
               let s3 = snd (set_led env s2 route_id True)
               in (s3, case button_callbacks s3 route_id of
                         None \<Rightarrow> None
                       | Some callback \<Rightarrow> Some (callback, route_id, cfg)))"

text \<open>
  The states a controller can be in: built by \<^verbatim>\<open>__init__\<close> and changed only through
  its methods. \<^verbatim>\<open>initialize\<close> stores nothing in mock mode; otherwise it contributes
  one step per route of its loop (it may stop early on an exception) and the final
  flag. \<^verbatim>\<open>cleanup\<close>, \<^verbatim>\<open>test_all_leds\<close> and the blink worker change the state through
  \<^verbatim>\<open>set_led\<close> only.
\<close>

inductive reachable ::
  "gpio_env \<Rightarrow> (route_id \<rightharpoonup> route_config) \<Rightarrow> 'cb gpio_controller \<Rightarrow> bool"
  for env :: gpio_env and routes :: "route_id \<rightharpoonup> route_config" where
  r_init: "reachable env routes (gpio_init routes)"
| r_initialize_route:
    "reachable env routes s \<Longrightarrow> GPIO_AVAILABLE env \<Longrightarrow> routes_config s r \<noteq> None \<Longrightarrow>
     reachable env routes (initialize_route s r)"
| r_initialized:
    "reachable env routes s \<Longrightarrow> GPIO_AVAILABLE env \<Longrightarrow>
     reachable env routes (s\<lparr>initialized := True\<rparr>)"
| r_register:
    "reachable env routes s \<Longrightarrow> reachable env routes (register_button_callback s r cb)"
| r_set_led: "reachable env routes s \<Longrightarrow> reachable env routes (snd (set_led env s r b))"
| r_toggle_led: "reachable env routes s \<Longrightarrow> reachable env routes (snd (toggle_led env s r))"
| r_button:
    "reachable env routes s \<Longrightarrow> reachable env routes (fst (button_callback env t s r ch))"

section \<open>Inbound LED control (src/raspberry/main.py)\<close>

text \<open>
  The values \<^verbatim>\<open>json.loads\<close> returns. An object is kept as the list of the members of
  the resulting dictionary (each key once); \<^verbatim>\<open>message.get(key, default)\<close> on it is
  \<open>dict_get\<close>. On any other value the
  attribute \<^verbatim>\<open>get\<close> does not exist and Python raises \<^verbatim>\<open>AttributeError\<close>.
\<close>

datatype json =
  JNull | JBool bool | JNum real | JStr string | JArr "json list" | JObj "(string \<times> json) list"

definition dict_get :: "(string \<times> json) list \<Rightarrow> string \<Rightarrow> json \<Rightarrow> json" where
  "dict_get members key dflt = (case map_of members key of None \<Rightarrow> dflt | Some v \<Rightarrow> v)"

text \<open>
  \<^verbatim>\<open>BusStopSystem._on_led_control\<close>. The result is the controller state and, for
  \<^verbatim>\<open>BLINK\<close>, the arguments of the blink thread that \<^verbatim>\<open>blink_led\<close> starts. A message
  that is not an object raises inside the \<^verbatim>\<open>try\<close>; the handler logs and returns.
\<close>

definition on_led_control ::
  "gpio_env \<Rightarrow> 'cb gpio_controller \<Rightarrow> route_id \<Rightarrow> json \<Rightarrow>
   'cb gpio_controller \<times> (route_id \<times> json \<times> json) option" where
  "on_led_control env s route_id message =
     (case message of
        JObj members \<Rightarrow>
          let status = dict_get members ''status'' (JStr ''OFF'')
          in if status = JStr ''ON'' then (snd (set_led env s route_id True), None)
             else if status = JStr ''OFF'' then (snd (set_led env s route_id False), None)
             else if status = JStr ''BLINK''
               then (s, Some (route_id,
                              dict_get members ''duration'' (JNum 2.0),
                              dict_get members ''interval'' (JNum 0.5)))
             else (s, None)
      | _ \<Rightarrow> (s, None))"

text \<open>A concrete configuration with one route, on real hardware and in mock mode.\<close>

definition demo_routes :: "route_id \<rightharpoonup> route_config" where
  "demo_routes =
     [''1'' \<mapsto> \<lparr>name = ''1'', color = Some ''#FF0000'', button_pin = 18, led_pin = 19\<rparr>]"

definition demo_env :: gpio_env where
  "demo_env = \<lparr>GPIO_AVAILABLE = True, DEBOUNCE_TIME = 0.3, output_raises = (\<lambda>pin level. False)\<rparr>"

definition mock_env :: gpio_env where
  "mock_env = \<lparr>GPIO_AVAILABLE = False, DEBOUNCE_TIME = 0.3, output_raises = (\<lambda>pin level. False)\<rparr>"

definition broken_env :: gpio_env where
  "broken_env = \<lparr>GPIO_AVAILABLE = True, DEBOUNCE_TIME = 0.3, output_raises = (\<lambda>pin level. True)\<rparr>"

section \<open>Properties of the stop-side controller\<close>

lemma set_led_routes_config: "routes_config (snd (set_led env s r b)) = routes_config s"
  by (simp add: set_led_def split: option.splits)

lemma set_led_led_states_dom:
  "dom (led_states s) \<subseteq> dom (routes_config s) \<Longrightarrow>
   dom (led_states (snd (set_led env s r b))) \<subseteq> dom (routes_config s)"
  by (auto simp: set_led_def split: option.splits if_splits)

definition led_keys_configured :: "(route_id \<rightharpoonup> route_config) \<Rightarrow> 'cb gpio_controller \<Rightarrow> bool" where
  "led_keys_configured routes s \<longleftrightarrow>
     routes_config s = routes \<and> dom (led_states s) \<subseteq> dom routes"

lemma set_led_keeps_configured:
  "led_keys_configured routes s \<Longrightarrow> led_keys_configured routes (snd (set_led env s r b))"
  unfolding led_keys_configured_def
  using set_led_led_states_dom [of s env r b] by (simp add: set_led_routes_config)

lemma reachable_led_keys_configured:
  "reachable env routes s \<Longrightarrow> led_keys_configured routes s"
proof (induction rule: reachable.induct)
  case r_init
  show ?case by (simp add: led_keys_configured_def gpio_init_def)
next
  case (r_initialize_route s r)
  then show ?case by (auto simp: led_keys_configured_def initialize_route_def)
next
  case (r_initialized s)
  then show ?case by (simp add: led_keys_configured_def)
next
  case (r_register s r cb)
  then show ?case by (simp add: led_keys_configured_def register_button_callback_def)
next
  case (r_set_led s r b)
  from r_set_led.IH show ?case by (rule set_led_keeps_configured)
next
  case (r_toggle_led s r)
  from r_toggle_led.IH show ?case by (simp add: toggle_led_def Let_def set_led_keeps_configured)
next
  case (r_button s t r ch)
  show ?case
  proof (cases "t - (case last_button_press s r of None \<Rightarrow> 0 | Some u \<Rightarrow> u) < DEBOUNCE_TIME env")
    case True
    with r_button.IH show ?thesis by (simp add: button_callback_def)
  next
    case False
    let ?s2 = "s\<lparr>last_button_press := (last_button_press s)(r \<mapsto> t),
                 button_states := (button_states s)(r \<mapsto> True)\<rparr>"
    from r_button.IH have inv2: "led_keys_configured routes ?s2"
      by (simp add: led_keys_configured_def)
    show ?thesis
    proof (cases "routes_config s r")
      case None
      with False inv2 show ?thesis by (simp add: button_callback_def Let_def)
    next
      case (Some cfg)
      from inv2 have "led_keys_configured routes (snd (set_led env ?s2 r True))"
        by (rule set_led_keeps_configured)
      with False Some show ?thesis by (simp add: button_callback_def Let_def)
    qed
  qed
qed

text \<open>
  C10. For a route id that is not in the configured routes and any boolean
  \<open>state\<close>, \<^verbatim>\<open>set_led\<close> returns \<^verbatim>\<open>False\<close> and leaves the whole controller state as it
  was, and \<^verbatim>\<open>get_led_state\<close> of that route then returns \<^verbatim>\<open>False\<close>. The last part uses
  that the controller only ever stores LED states of configured routes.
\<close>

theorem set_led_unknown_route:
  assumes "reachable env routes s" and "routes r = None"
  shows "set_led env s r state = (False, s) \<and>
         get_led_state (snd (set_led env s r state)) r = False"
proof -
  from assms(1) have inv: "led_keys_configured routes s"
    by (rule reachable_led_keys_configured)
  with assms(2) have cfg: "routes_config s r = None"
    by (simp add: led_keys_configured_def)
  from inv assms(2) have "led_states s r = None"
    by (auto simp: led_keys_configured_def)
  with cfg show ?thesis by (simp add: set_led_def get_led_state_def)
qed

theorem set_led_unknown_route_witness:
  "reachable demo_env demo_routes (gpio_init demo_routes :: unit gpio_controller) \<and>
   demo_routes ''9'' = None \<and>
   set_led demo_env (gpio_init demo_routes :: unit gpio_controller) ''9'' True
     = (False, gpio_init demo_routes) \<and>
   get_led_state (snd (set_led demo_env (gpio_init demo_routes :: unit gpio_controller) ''9'' True)) ''9''
     = False"
proof -
  have r: "reachable demo_env demo_routes (gpio_init demo_routes :: unit gpio_controller)"
    by (rule r_init)
  have n: "demo_routes ''9'' = None"
    by (simp add: demo_routes_def)
  from r n set_led_unknown_route [OF r n, of True] show ?thesis by blast
qed

subsection \<open>Debouncing\<close>

lemma button_callback_rejects:
  "now - (case last_button_press s r of None \<Rightarrow> 0 | Some t \<Rightarrow> t) < DEBOUNCE_TIME env \<Longrightarrow>
   button_callback env now s r ch = (s, None)"
  by (simp add: button_callback_def)

lemma button_callback_last_press:
  "\<not> now - (case last_button_press s r of None \<Rightarrow> 0 | Some t \<Rightarrow> t) < DEBOUNCE_TIME env \<Longrightarrow>
   last_button_press (fst (button_callback env now s r ch)) = (last_button_press s)(r \<mapsto> now)"
  by (simp add: button_callback_def Let_def set_led_def split: option.splits)

lemma button_callback_button_states:
  "\<not> now - (case last_button_press s r of None \<Rightarrow> 0 | Some t \<Rightarrow> t) < DEBOUNCE_TIME env \<Longrightarrow>
   button_states (fst (button_callback env now s r ch)) = (button_states s)(r \<mapsto> True)"
  by (simp add: button_callback_def Let_def set_led_def split: option.splits)

text \<open>
  C5. An edge on channel \<open>r\<close> at time \<open>now\<close> is compared with the timestamp stored
  for \<open>r\<close> in \<open>last_button_press\<close> (0 when none is stored). It is accepted exactly
  when \<open>now\<close> minus that timestamp is at least \<open>DEBOUNCE_TIME\<close>: then the handler
  proceeds, the stored timestamp of \<open>r\<close> becomes \<open>now\<close> (those of the other channels
  stay) and the channel is marked pressed. Otherwise the handler returns at once: the
  whole controller state, timestamps included, is the one before, and nothing is
  started. The stored timestamp is the one the next edge is compared with: after an
  accepted edge at \<open>now\<close>, an edge at \<open>later\<close> is rejected when \<open>later - now\<close> is
  less than the window and accepted otherwise.
\<close>

theorem debounce_accepts_iff_window_elapsed:
  "(DEBOUNCE_TIME env \<le> now - (case last_button_press s r of None \<Rightarrow> 0 | Some t \<Rightarrow> t) \<longrightarrow>
      last_button_press (fst (button_callback env now s r ch)) = (last_button_press s)(r \<mapsto> now) \<and>
      button_states (fst (button_callback env now s r ch)) = (button_states s)(r \<mapsto> True) \<and>
      (later - now < DEBOUNCE_TIME env \<longrightarrow>
         button_callback env later (fst (button_callback env now s r ch)) r ch
           = (fst (button_callback env now s r ch), None)) \<and>
      (DEBOUNCE_TIME env \<le> later - now \<longrightarrow>
         last_button_press (fst (button_callback env later (fst (button_callback env now s r ch)) r ch))
           = (last_button_press s)(r \<mapsto> later))) \<and>
   (\<not> DEBOUNCE_TIME env \<le> now - (case last_button_press s r of None \<Rightarrow> 0 | Some t \<Rightarrow> t) \<longrightarrow>
      button_callback env now s r ch = (s, None))"
proof (cases "now - (case last_button_press s r of None \<Rightarrow> 0 | Some t \<Rightarrow> t) < DEBOUNCE_TIME env")
  case True
  then show ?thesis by (simp add: button_callback_rejects)
next
  case False
  let ?s' = "fst (button_callback env now s r ch)"
  from False have stored: "last_button_press ?s' = (last_button_press s)(r \<mapsto> now)"
    by (rule button_callback_last_press)
  from False have pressed: "button_states ?s' = (button_states s)(r \<mapsto> True)"
    by (rule button_callback_button_states)
  have bounce: "button_callback env later ?s' r ch = (?s', None)"
    if "later - now < DEBOUNCE_TIME env"
    using that by (intro button_callback_rejects) (simp add: stored)
  have next_edge: "last_button_press (fst (button_callback env later ?s' r ch))
      = (last_button_press s)(r \<mapsto> later)"
    if "DEBOUNCE_TIME env \<le> later - now"
  proof -
    from that have "\<not> later - (case last_button_press ?s' r of None \<Rightarrow> 0 | Some t \<Rightarrow> t)
        < DEBOUNCE_TIME env"
      by (simp add: stored)
    then have "last_button_press (fst (button_callback env later ?s' r ch))
        = (last_button_press ?s')(r \<mapsto> later)"
      by (rule button_callback_last_press)
    then show ?thesis by (simp add: stored)
  qed
  from False stored pressed bounce next_edge show ?thesis by simp
qed

text \<open>
  A channel whose stored timestamp is 0 takes an edge at time 10, a bounce 0.1 seconds
  later is rejected, and an edge exactly one window (0.3 seconds) later is accepted.
\<close>

theorem debounce_accepts_iff_window_elapsed_witness:
  "last_button_press (fst (button_callback demo_env 10
       (initialize_route (gpio_init demo_routes :: unit gpio_controller) ''1'') ''1'' 18)) ''1'' = Some 10 \<and>
   button_callback demo_env 10.1
       (fst (button_callback demo_env 10
          (initialize_route (gpio_init demo_routes :: unit gpio_controller) ''1'') ''1'' 18)) ''1'' 18
     = (fst (button_callback demo_env 10
          (initialize_route (gpio_init demo_routes :: unit gpio_controller) ''1'') ''1'' 18), None) \<and>
   last_button_press (fst (button_callback demo_env 10.3
       (fst (button_callback demo_env 10
          (initialize_route (gpio_init demo_routes :: unit gpio_controller) ''1'') ''1'' 18)) ''1'' 18)) ''1''
     = Some 10.3 \<and>
   button_callback demo_env 0.1 (initialize_route (gpio_init demo_routes :: unit gpio_controller) ''1'') ''1'' 18
     = (initialize_route (gpio_init demo_routes) ''1'', None)"
proof -
  let ?s = "initialize_route (gpio_init demo_routes :: unit gpio_controller) ''1''"
  have st: "last_button_press ?s ''1'' = Some 0"
    by (simp add: initialize_route_def)
  have w: "DEBOUNCE_TIME demo_env = 0.3"
    by (simp add: demo_env_def)
  have a: "DEBOUNCE_TIME demo_env \<le> 10 - (case last_button_press ?s ''1'' of None \<Rightarrow> 0 | Some t \<Rightarrow> t)"
    by (simp add: st w)
  have b: "\<not> DEBOUNCE_TIME demo_env \<le> 0.1 - (case last_button_press ?s ''1'' of None \<Rightarrow> 0 | Some t \<Rightarrow> t)"
    by (simp add: st w)
  have c: "(10.1::real) - 10 < DEBOUNCE_TIME demo_env"
    by (simp add: w)
  have d: "DEBOUNCE_TIME demo_env \<le> (10.3::real) - 10"
    by (simp add: w)
  from a debounce_accepts_iff_window_elapsed [of demo_env 10 ?s "''1''" 18 "10.1"]
  have 1: "last_button_press (fst (button_callback demo_env 10 ?s ''1'' 18)) ''1'' = Some 10"
    by simp
  from a c debounce_accepts_iff_window_elapsed [of demo_env 10 ?s "''1''" 18 "10.1"]
  have 2: "button_callback demo_env 10.1 (fst (button_callback demo_env 10 ?s ''1'' 18)) ''1'' 18
      = (fst (button_callback demo_env 10 ?s ''1'' 18), None)"
    by blast
  from a d debounce_accepts_iff_window_elapsed [of demo_env 10 ?s "''1''" 18 "10.3"]
  have 3: "last_button_press (fst (button_callback demo_env 10.3
      (fst (button_callback demo_env 10 ?s ''1'' 18)) ''1'' 18)) ''1'' = Some 10.3"
    by simp
  from b debounce_accepts_iff_window_elapsed [of demo_env "0.1" ?s "''1''" 18 0]
  have 4: "button_callback demo_env 0.1 ?s ''1'' 18 = (?s, None)"
    by blast
  from 1 2 3 4 show ?thesis by blast
qed

subsection \<open>ON and OFF commands\<close>

lemma set_led_stores:
  assumes "routes_config s r = Some cfg"
    and "GPIO_AVAILABLE env \<longrightarrow> \<not> output_raises env (led_pin cfg) b"
  shows "set_led env s r b = (True, s\<lparr>led_states := (led_states s)(r \<mapsto> b)\<rparr>)"
  using assms by (simp add: set_led_def)

lemma set_led_write_raises:
  assumes "routes_config s r = Some cfg"
    and "GPIO_AVAILABLE env" and "output_raises env (led_pin cfg) b"
  shows "set_led env s r b = (False, s)"
  using assms by (simp add: set_led_def)

lemma on_led_control_ON:
  "dict_get members ''status'' (JStr ''OFF'') = JStr ''ON'' \<Longrightarrow>
   on_led_control env s r (JObj members) = (snd (set_led env s r True), None)"
  by (simp add: on_led_control_def)

lemma on_led_control_OFF:
  "dict_get members ''status'' (JStr ''OFF'') = JStr ''OFF'' \<Longrightarrow>
   on_led_control env s r (JObj members) = (snd (set_led env s r False), None)"
  by (simp add: on_led_control_def)

text \<open>
  C8, refuted as stated: on a configured channel whose hardware write raises (for
  example a controller on which \<^verbatim>\<open>initialize\<close> never set the pin up), \<^verbatim>\<open>set_led\<close>
  catches the exception and stores nothing, so the read after an \<^verbatim>\<open>ON\<close> command
  still yields \<^verbatim>\<open>False\<close>.
\<close>

theorem led_on_roundtrip_counterexample:
  "demo_routes ''1'' \<noteq> None \<and>
   get_led_state
     (fst (on_led_control broken_env (gpio_init demo_routes :: unit gpio_controller) ''1''
             (JObj [(''status'', JStr ''ON'')]))) ''1'' = False"
  by (simp add: on_led_control_def dict_get_def set_led_def get_led_state_def gpio_init_def
      demo_routes_def broken_env_def)

text \<open>
  C8, amended. For a configured channel whose LED pin write does not raise (always so
  in mock mode, where nothing is written), an \<^verbatim>\<open>ON\<close> command followed by
  \<^verbatim>\<open>get_led_state\<close> yields \<^verbatim>\<open>True\<close> and an \<^verbatim>\<open>OFF\<close> command (also a message
  without a status field) yields \<^verbatim>\<open>False\<close>. When the write raises, the command
  leaves the controller state as it was.
\<close>

theorem led_control_roundtrip:
  assumes cfg: "routes_config s r = Some cfg"
  shows "((GPIO_AVAILABLE env \<longrightarrow> \<not> output_raises env (led_pin cfg) True) \<longrightarrow>
            dict_get members ''status'' (JStr ''OFF'') = JStr ''ON'' \<longrightarrow>
            get_led_state (fst (on_led_control env s r (JObj members))) r = True) \<and>
         ((GPIO_AVAILABLE env \<longrightarrow> \<not> output_raises env (led_pin cfg) False) \<longrightarrow>
            dict_get members ''status'' (JStr ''OFF'') = JStr ''OFF'' \<longrightarrow>
            get_led_state (fst (on_led_control env s r (JObj members))) r = False) \<and>
         (GPIO_AVAILABLE env \<and> output_raises env (led_pin cfg) True \<and>
            output_raises env (led_pin cfg) False \<longrightarrow>
            fst (on_led_control env s r (JObj members)) = s)"
proof (intro conjI impI)
  assume "GPIO_AVAILABLE env \<longrightarrow> \<not> output_raises env (led_pin cfg) True"
    and "dict_get members ''status'' (JStr ''OFF'') = JStr ''ON''"
  then show "get_led_state (fst (on_led_control env s r (JObj members))) r = True"
    using cfg by (simp add: on_led_control_ON set_led_stores get_led_state_def)
next
  assume "GPIO_AVAILABLE env \<longrightarrow> \<not> output_raises env (led_pin cfg) False"
    and "dict_get members ''status'' (JStr ''OFF'') = JStr ''OFF''"
  then show "get_led_state (fst (on_led_control env s r (JObj members))) r = False"
    using cfg by (simp add: on_led_control_OFF set_led_stores get_led_state_def)
next
  assume "GPIO_AVAILABLE env \<and> output_raises env (led_pin cfg) True \<and>
          output_raises env (led_pin cfg) False"
  then show "fst (on_led_control env s r (JObj members)) = s"
    using cfg by (simp add: on_led_control_def Let_def set_led_write_raises)
qed

theorem led_control_roundtrip_witness:
  "routes_config (gpio_init demo_routes :: unit gpio_controller) ''1''
     = Some \<lparr>name = ''1'', color = Some ''#FF0000'', button_pin = 18, led_pin = 19\<rparr> \<and>
   get_led_state (fst (on_led_control demo_env (gpio_init demo_routes :: unit gpio_controller) ''1''
      (JObj [(''status'', JStr ''ON'')]))) ''1'' = True \<and>
   get_led_state (fst (on_led_control mock_env (gpio_init demo_routes :: unit gpio_controller) ''1''
      (JObj [(''status'', JStr ''OFF'')]))) ''1'' = False \<and>
   fst (on_led_control broken_env (gpio_init demo_routes :: unit gpio_controller) ''1''
      (JObj [(''status'', JStr ''ON'')])) = gpio_init demo_routes"
proof -
  let ?s = "gpio_init demo_routes :: unit gpio_controller"
  let ?cfg = "\<lparr>name = ''1'', color = Some ''#FF0000'', button_pin = 18, led_pin = 19\<rparr>"
  have cfg: "routes_config ?s ''1'' = Some ?cfg"
    by (simp add: gpio_init_def demo_routes_def)
  have on: "get_led_state (fst (on_led_control demo_env ?s ''1'' (JObj [(''status'', JStr ''ON'')]))) ''1'' = True"
    using led_control_roundtrip [OF cfg, of demo_env "[(''status'', JStr ''ON'')]"]
    by (simp add: demo_env_def dict_get_def)
  have off: "get_led_state (fst (on_led_control mock_env ?s ''1'' (JObj [(''status'', JStr ''OFF'')]))) ''1'' = False"
    using led_control_roundtrip [OF cfg, of mock_env "[(''status'', JStr ''OFF'')]"]
    by (simp add: mock_env_def dict_get_def)
  have broken: "fst (on_led_control broken_env ?s ''1'' (JObj [(''status'', JStr ''ON'')])) = ?s"
    using led_control_roundtrip [OF cfg, of broken_env "[(''status'', JStr ''ON'')]"]
    by (simp add: broken_env_def)
  from cfg on off broken show ?thesis by blast
qed

section \<open>Blink patterns\<close>

text \<open>
  The blink worker of the stop-side controller (\<^verbatim>\<open>blink_led\<close> runs it on a thread of
  its own; here it runs alone). The clock is outside the program: \<open>clock k\<close> is the
  value the worker's \<open>k\<close>-th call of \<^verbatim>\<open>time.time()\<close> returns, reading 0 being the one
  stored as \<^verbatim>\<open>start_time\<close>; nothing is assumed about how the readings relate to the
  sleeps. A negative argument makes \<^verbatim>\<open>time.sleep\<close> raise \<^verbatim>\<open>ValueError\<close>, which the
  worker catches: it logs and ends without the restoring write (first component
  \<open>False\<close>). The loop is a partial function: on a clock that never shows
  \<open>duration\<close> elapsed it does not return. The last component lists what the worker
  does in order: the channel's output state after each \<^verbatim>\<open>set_led\<close> call, and each sleep
  with its length.
\<close>

datatype 'o blink_effect = Output 'o | Sleep real

partial_function (option) blink_loop ::
  "gpio_env \<Rightarrow> route_id \<Rightarrow> real \<Rightarrow> real \<Rightarrow> real \<Rightarrow> (nat \<Rightarrow> real) \<Rightarrow> nat \<Rightarrow>
   'cb gpio_controller \<Rightarrow> bool blink_effect list \<Rightarrow>
   (bool \<times> 'cb gpio_controller \<times> bool blink_effect list) option" where
  "blink_loop env route_id start_time duration interval clock k s effects =
     (if clock k - start_time < duration
      then
        let s1 = snd (set_led env s route_id True);
            effects1 = effects @ [Output (get_led_state s1 route_id)]
        in if interval < 0 then Some (False, s1, effects1)
           else
             let s2 = snd (set_led env s1 route_id False);
                 effects2 = effects1 @ [Sleep interval, Output (get_led_state s2 route_id),
                                        Sleep interval]
             in blink_loop env route_id start_time duration interval clock (Suc k) s2 effects2
      else Some (True, s, effects))"

declare blink_loop.simps [code]

text \<open>
  \<^verbatim>\<open>blink_worker\<close>: remember the state, read the start time, loop, then write the
  remembered state back. The result is the final controller and what the worker did.
\<close>

definition blink_worker ::
  "gpio_env \<Rightarrow> (nat \<Rightarrow> real) \<Rightarrow> 'cb gpio_controller \<Rightarrow> route_id \<Rightarrow> real \<Rightarrow> real \<Rightarrow>
   ('cb gpio_controller \<times> bool blink_effect list) option" where
  "blink_worker env clock s route_id duration interval =
     (let original_state = (case led_states s route_id of None \<Rightarrow> False | Some b \<Rightarrow> b);
          start_time = clock 0
      in case blink_loop env route_id start_time duration interval clock (Suc 0) s [] of
           None \<Rightarrow> None
         | Some (completed, s', effects) \<Rightarrow>
             if completed
             then let s'' = snd (set_led env s' route_id original_state)
                  in Some (s'', effects @ [Output (get_led_state s'' route_id)])
             else Some (s', effects))"

text \<open>
  The first \<open>n\<close> loop tests (readings 1 to \<open>n\<close>) all see less than \<open>duration\<close>
  elapsed since reading 0.
\<close>

fun blink_tests_pass :: "(nat \<Rightarrow> real) \<Rightarrow> real \<Rightarrow> nat \<Rightarrow> bool" where
  "blink_tests_pass clock duration 0 = True"
| "blink_tests_pass clock duration (Suc n) =
     (blink_tests_pass clock duration n \<and> clock (Suc n) - clock 0 < duration)"

text \<open>\<open>n\<close> on/off cycles: on, sleep, off, sleep, and so on.\<close>

fun blink_cycles :: "real \<Rightarrow> nat \<Rightarrow> bool blink_effect list" where
  "blink_cycles interval 0 = []"
| "blink_cycles interval (Suc n) =
     [Output True, Sleep interval, Output False, Sleep interval] @ blink_cycles interval n"

text \<open>The LED pin of a route can be written: mock mode, or neither level raises.\<close>

definition writes_ok :: "gpio_env \<Rightarrow> route_config \<Rightarrow> bool" where
  "writes_ok env cfg \<longleftrightarrow>
     (GPIO_AVAILABLE env \<longrightarrow> \<not> output_raises env (led_pin cfg) True \<and> \<not> output_raises env (led_pin cfg) False)"

text \<open>
  A clock for examples: the first loop test follows the start at once, and every
  further reading is \<open>step\<close> seconds after the one before.
\<close>

fun steady_clock :: "real \<Rightarrow> nat \<Rightarrow> real" where
  "steady_clock step 0 = 0"
| "steady_clock step (Suc k) = step * real k"

lemma set_led_ok:
  "routes_config s r = Some cfg \<Longrightarrow> writes_ok env cfg \<Longrightarrow>
   snd (set_led env s r b) = s\<lparr>led_states := (led_states s)(r \<mapsto> b)\<rparr>"
  by (cases b) (auto simp: set_led_def writes_ok_def)

lemma blink_tests_pass_iff:
  "blink_tests_pass clock duration n \<longleftrightarrow> (\<forall>i<n. clock (Suc i) - clock 0 < duration)"
  by (induction n) (auto simp: less_Suc_eq)

lemma blink_loop_runs:
  assumes ok: "writes_ok env cfg" and nonneg: "0 \<le> interval"
  shows "routes_config s r = Some cfg \<Longrightarrow>
    (\<And>i. i < m \<Longrightarrow> clock (k + i) - start < duration) \<Longrightarrow>
    \<not> clock (k + m) - start < duration \<Longrightarrow>
    blink_loop env r start duration interval clock k s effects =
      Some (True, (if m = 0 then s else s\<lparr>led_states := (led_states s)(r \<mapsto> False)\<rparr>),
            effects @ blink_cycles interval m)"
proof (induction m arbitrary: k s effects)
  case 0
  then show ?case by (subst blink_loop.simps) simp
next
  case (Suc m)
  let ?s1 = "s\<lparr>led_states := (led_states s)(r \<mapsto> True)\<rparr>"
  let ?s2 = "s\<lparr>led_states := (led_states s)(r \<mapsto> False)\<rparr>"
  let ?effects2 = "effects @ [Output True, Sleep interval, Output False, Sleep interval]"
  have run: "clock k - start < duration"
    using Suc.prems(2) [of 0] by simp
  have s1: "snd (set_led env s r True) = ?s1"
    using Suc.prems(1) ok by (rule set_led_ok)
  have "snd (set_led env ?s1 r False) = ?s1\<lparr>led_states := (led_states ?s1)(r \<mapsto> False)\<rparr>"
    using ok by (intro set_led_ok) (simp_all add: Suc.prems(1))
  then have s2: "snd (set_led env ?s1 r False) = ?s2" by simp
  have cfg2: "routes_config ?s2 r = Some cfg" using Suc.prems(1) by simp
  have pass: "clock (Suc k + i) - start < duration" if "i < m" for i
    using Suc.prems(2) [of "Suc i"] that by simp
  have stop: "\<not> clock (Suc k + m) - start < duration"
    using Suc.prems(3) by simp
  have IH: "blink_loop env r start duration interval clock (Suc k) ?s2 ?effects2 =
      Some (True, ?s2, ?effects2 @ blink_cycles interval m)"
    using Suc.IH [OF cfg2 pass stop, of ?effects2] by simp
  have "blink_loop env r start duration interval clock k s effects =
        blink_loop env r start duration interval clock (Suc k) ?s2 ?effects2"
    using run nonneg by (subst blink_loop.simps) (simp add: s1 s2 Let_def get_led_state_def)
  with IH show ?case by simp
qed

subsection \<open>Bus-side controller (src/bus/gpio_controller.py)\<close>

text \<open>
  The bus controller keeps two booleans for its red and green LED bars. \<^verbatim>\<open>set_led\<close>
  stores both and then writes both pins; an exception of a write is not caught there,
  so it ends the calling thread (first component \<open>False\<close>) after the store.
\<close>

record bus_config =
  LED_RED_PIN :: int
  LED_GREEN_PIN :: int
  BUZZER_PIN :: int

record bus_gpio =
  bus_initialized :: bool
  led_red_state :: bool
  led_green_state :: bool

definition bus_set_led ::
  "gpio_env \<Rightarrow> bus_config \<Rightarrow> bus_gpio \<Rightarrow> bool \<Rightarrow> bool \<Rightarrow> bool \<times> bus_gpio" where
  "bus_set_led env cfg s red green =
     (let s' = s\<lparr>led_red_state := red, led_green_state := green\<rparr>
      in if GPIO_AVAILABLE env
         then if output_raises env (LED_RED_PIN cfg) red then (False, s')
              else if output_raises env (LED_GREEN_PIN cfg) green then (False, s')
              else (True, s')
         else (True, s'))"

text \<open>
  The worker of the bus-side \<^verbatim>\<open>blink_led\<close>: alternately the chosen colour and both
  LEDs off while the clock reading is before \<open>end_time\<close>; there is no write after
  the loop. The outputs listed are the (red, green) states after each \<^verbatim>\<open>set_led\<close> call.
\<close>

partial_function (option) bus_blink_loop ::
  "gpio_env \<Rightarrow> bus_config \<Rightarrow> real \<Rightarrow> real \<Rightarrow> string \<Rightarrow> (nat \<Rightarrow> real) \<Rightarrow> nat \<Rightarrow> bus_gpio \<Rightarrow>
   (bool \<times> bool) blink_effect list \<Rightarrow>
   (bool \<times> bus_gpio \<times> (bool \<times> bool) blink_effect list) option" where
  "bus_blink_loop env cfg end_time interval led_color clock k s effects =
     (if clock k < end_time
      then
        let on = (if led_color = ''red'' then bus_set_led env cfg s True False
                  else if led_color = ''green'' then bus_set_led env cfg s False True
                  else (True, s));
            s1 = snd on;
            effects1 = (if led_color = ''red'' \<or> led_color = ''green''
                        then effects @ [Output (led_red_state s1, led_green_state s1)]
                        else effects)
        in if \<not> fst on \<or> interval < 0 then Some (False, s1, effects1)
           else
             let off = bus_set_led env cfg s1 False False;
                 s2 = snd off;
                 effects2 = effects1 @ [Sleep interval,
                                        Output (led_red_state s2, led_green_state s2)]
             in if \<not> fst off then Some (False, s2, effects2)
                else bus_blink_loop env cfg end_time interval led_color clock (Suc k) s2
                       (effects2 @ [Sleep interval])
      else Some (True, s, effects))"

declare bus_blink_loop.simps [code]

definition bus_blink_worker ::
  "gpio_env \<Rightarrow> bus_config \<Rightarrow> (nat \<Rightarrow> real) \<Rightarrow> bus_gpio \<Rightarrow> real \<Rightarrow> real \<Rightarrow> string \<Rightarrow>
   (bool \<times> bus_gpio \<times> (bool \<times> bool) blink_effect list) option" where
  "bus_blink_worker env cfg clock s duration interval led_color =
     bus_blink_loop env cfg (clock 0 + duration) interval led_color clock (Suc 0) s []"

text \<open>
  The default pins, and the controller state after \<^verbatim>\<open>BusDevice.start\<close> has switched the
  green ready light on.
\<close>

definition bus_pins :: bus_config where
  "bus_pins = \<lparr>LED_RED_PIN = 5, LED_GREEN_PIN = 6, BUZZER_PIN = 13\<rparr>"

definition bus_ready :: bus_gpio where
  "bus_ready = \<lparr>bus_initialized = True, led_red_state = False, led_green_state = True\<rparr>"

text \<open>
  C3, refuted as stated, at three inputs. On the bus-side controller a green blink
  (\<^verbatim>\<open>blink_led(duration=1.0, interval=0.3, color="green")\<close>) from the ready state, in
  which the green LED is on, completes with the green LED off: the prior state of the
  blinked channel is not put back. On the stop-side controller a blink with a negative
  interval ends at the first sleep with the LED left on although it was off before;
  and on a channel whose pin writes raise, the output never changes during the
  pattern.
\<close>

theorem blink_not_restored_counterexample:
  "led_green_state bus_ready = True \<and>
   bus_blink_worker demo_env bus_pins (steady_clock 0.6) bus_ready 1.0 0.3 ''green'' =
     Some (True, \<lparr>bus_initialized = True, led_red_state = False, led_green_state = False\<rparr>,
           [Output (False, True), Sleep 0.3, Output (False, False), Sleep 0.3,
            Output (False, True), Sleep 0.3, Output (False, False), Sleep 0.3]) \<and>
   get_led_state (initialize_route (gpio_init demo_routes :: unit gpio_controller) ''1'') ''1'' = False \<and>
   blink_worker demo_env (steady_clock 0.4)
       (initialize_route (gpio_init demo_routes :: unit gpio_controller) ''1'') ''1'' 1.0 (- 1) =
     Some ((initialize_route (gpio_init demo_routes) ''1'')\<lparr>led_states := [''1'' \<mapsto> True]\<rparr>,
           [Output True]) \<and>
   blink_worker broken_env (steady_clock 0.4)
       (initialize_route (gpio_init demo_routes :: unit gpio_controller) ''1'') ''1'' 1.0 0.2 =
     Some (initialize_route (gpio_init demo_routes) ''1'',
           [Output False, Sleep 0.2, Output False, Sleep 0.2,
            Output False, Sleep 0.2, Output False, Sleep 0.2,
            Output False, Sleep 0.2, Output False, Sleep 0.2, Output False])"
proof (intro conjI)
  show "led_green_state bus_ready = True"
    by (simp add: bus_ready_def)
  show "bus_blink_worker demo_env bus_pins (steady_clock 0.6) bus_ready 1.0 0.3 ''green'' =
     Some (True, \<lparr>bus_initialized = True, led_red_state = False, led_green_state = False\<rparr>,
           [Output (False, True), Sleep 0.3, Output (False, False), Sleep 0.3,
            Output (False, True), Sleep 0.3, Output (False, False), Sleep 0.3])"
    by (simp add: bus_blink_worker_def bus_blink_loop.simps bus_set_led_def bus_ready_def
        bus_pins_def demo_env_def Let_def)
  show "get_led_state (initialize_route (gpio_init demo_routes :: unit gpio_controller) ''1'') ''1'' = False"
    by (simp add: get_led_state_def initialize_route_def)
  show "blink_worker demo_env (steady_clock 0.4)
       (initialize_route (gpio_init demo_routes :: unit gpio_controller) ''1'') ''1'' 1.0 (- 1) =
     Some ((initialize_route (gpio_init demo_routes) ''1'')\<lparr>led_states := [''1'' \<mapsto> True]\<rparr>,
           [Output True])"
    by (simp add: blink_worker_def blink_loop.simps set_led_def get_led_state_def
        initialize_route_def gpio_init_def demo_routes_def demo_env_def Let_def)
  show "blink_worker broken_env (steady_clock 0.4)
       (initialize_route (gpio_init demo_routes :: unit gpio_controller) ''1'') ''1'' 1.0 0.2 =
     Some (initialize_route (gpio_init demo_routes) ''1'',
           [Output False, Sleep 0.2, Output False, Sleep 0.2,
            Output False, Sleep 0.2, Output False, Sleep 0.2,
            Output False, Sleep 0.2, Output False, Sleep 0.2, Output False])"
    by (simp add: blink_worker_def blink_loop.simps set_led_def get_led_state_def
        initialize_route_def gpio_init_def demo_routes_def broken_env_def Let_def)
qed

text \<open>
  C3, amended to the stop-side controller. For a channel \<open>r\<close> (a configured route)
  whose pin writes succeed, any prior controller state \<open>s\<close>, a non-negative interval
  and any clock: if the first \<open>n\<close> loop tests see less than \<open>duration\<close> elapsed
  and the next one does not, the blink worker completes; it has switched the channel
  on, slept \<open>interval\<close>, switched it off, slept \<open>interval\<close>, \<open>n\<close> times over,
  that is for as long as less than \<open>duration\<close> had elapsed at the start of a cycle;
  its last write puts the prior output state of the channel back, so that
  \<^verbatim>\<open>get_led_state\<close> is what it was before, and no other part of the controller state has
  changed.
\<close>

theorem blink_restores_prior_state:
  assumes cfg: "routes_config s r = Some cfg" and ok: "writes_ok env cfg"
    and nonneg: "0 \<le> interval"
    and pass: "blink_tests_pass clock duration n"
    and stop: "\<not> clock (Suc n) - clock 0 < duration"
  shows "blink_worker env clock s r duration interval =
           Some (s\<lparr>led_states := (led_states s)(r \<mapsto> get_led_state s r)\<rparr>,
                 blink_cycles interval n @ [Output (get_led_state s r)]) \<and>
         get_led_state (s\<lparr>led_states := (led_states s)(r \<mapsto> get_led_state s r)\<rparr>) r
           = get_led_state s r"
proof -
  let ?s' = "if n = 0 then s else s\<lparr>led_states := (led_states s)(r \<mapsto> False)\<rparr>"
  have pass': "clock (Suc 0 + i) - clock 0 < duration" if "i < n" for i
    using pass that by (simp add: blink_tests_pass_iff)
  have stop': "\<not> clock (Suc 0 + n) - clock 0 < duration"
    using stop by simp
  have loop: "blink_loop env r (clock 0) duration interval clock (Suc 0) s [] =
      Some (True, ?s', [] @ blink_cycles interval n)"
    using ok nonneg cfg pass' stop' by (rule blink_loop_runs)
  have cfg': "routes_config ?s' r = Some cfg" using cfg by simp
  have "snd (set_led env ?s' r (get_led_state s r)) = ?s'\<lparr>led_states := (led_states ?s')(r \<mapsto> get_led_state s r)\<rparr>"
    using cfg' ok by (rule set_led_ok)
  then have restore: "snd (set_led env ?s' r (get_led_state s r)) = s\<lparr>led_states := (led_states s)(r \<mapsto> get_led_state s r)\<rparr>"
    by simp
  have orig: "(case led_states s r of None \<Rightarrow> False | Some b \<Rightarrow> b) = get_led_state s r"
    by (simp add: get_led_state_def)
  have "blink_worker env clock s r duration interval =
           Some (s\<lparr>led_states := (led_states s)(r \<mapsto> get_led_state s r)\<rparr>,
                 blink_cycles interval n @ [Output (get_led_state s r)])"
    unfolding blink_worker_def orig Let_def loop
    by (simp add: restore) (simp add: get_led_state_def)
  then show ?thesis by (simp add: get_led_state_def)
qed

text \<open>
  A blink of duration 1.0 and interval 0.2 on a lit channel, on a clock where a cycle
  takes 0.4 seconds: the loop tests at 0, 0.4 and 0.8 pass, the one at 1.2 does not.
\<close>

theorem blink_restores_prior_state_witness:
  "routes_config (snd (set_led demo_env (gpio_init demo_routes :: unit gpio_controller) ''1'' True)) ''1''
     = Some \<lparr>name = ''1'', color = Some ''#FF0000'', button_pin = 18, led_pin = 19\<rparr> \<and>
   writes_ok demo_env \<lparr>name = ''1'', color = Some ''#FF0000'', button_pin = 18, led_pin = 19\<rparr> \<and>
   (0::real) \<le> 0.2 \<and>
   blink_tests_pass (steady_clock 0.4) 1.0 3 \<and>
   \<not> steady_clock 0.4 (Suc 3) - steady_clock 0.4 0 < 1.0 \<and>
   get_led_state (snd (set_led demo_env (gpio_init demo_routes :: unit gpio_controller) ''1'' True)) ''1'' = True \<and>
   blink_worker demo_env (steady_clock 0.4)
       (snd (set_led demo_env (gpio_init demo_routes :: unit gpio_controller) ''1'' True)) ''1'' 1.0 0.2 =
     Some (snd (set_led demo_env (gpio_init demo_routes :: unit gpio_controller) ''1'' True),
           [Output True, Sleep 0.2, Output False, Sleep 0.2,
            Output True, Sleep 0.2, Output False, Sleep 0.2,
            Output True, Sleep 0.2, Output False, Sleep 0.2, Output True])"
proof -
  let ?cfg = "\<lparr>name = ''1'', color = Some ''#FF0000'', button_pin = 18, led_pin = 19\<rparr>"
  let ?s = "snd (set_led demo_env (gpio_init demo_routes :: unit gpio_controller) ''1'' True)"
  have s: "?s = (gpio_init demo_routes)\<lparr>led_states := [''1'' \<mapsto> True]\<rparr>"
    by (simp add: set_led_def gpio_init_def demo_routes_def demo_env_def)
  have cfg: "routes_config ?s ''1'' = Some ?cfg"
    by (simp add: s) (simp add: gpio_init_def demo_routes_def)
  have ok: "writes_ok demo_env ?cfg"
    by (simp add: writes_ok_def demo_env_def)
  have nonneg: "(0::real) \<le> 0.2" by simp
  have pass: "blink_tests_pass (steady_clock 0.4) 1.0 3"
    by (simp add: numeral_3_eq_3)
  have stop: "\<not> steady_clock 0.4 (Suc 3) - steady_clock 0.4 0 < 1.0"
    by (simp add: eval_nat_numeral)
  have st: "get_led_state ?s ''1'' = True"
    by (simp add: s get_led_state_def)
  have cycles: "blink_cycles 0.2 3 =
      [Output True, Sleep 0.2, Output False, Sleep 0.2,
       Output True, Sleep 0.2, Output False, Sleep 0.2,
       Output True, Sleep 0.2, Output False, Sleep 0.2]"
    by (simp add: numeral_3_eq_3)
  have fin: "?s\<lparr>led_states := (led_states ?s)(''1'' \<mapsto> True)\<rparr> = ?s"
    by (simp add: s)
  from blink_restores_prior_state [OF cfg ok nonneg pass stop]
  have "blink_worker demo_env (steady_clock 0.4) ?s ''1'' 1.0 0.2 =
     Some (?s, [Output True, Sleep 0.2, Output False, Sleep 0.2,
            Output True, Sleep 0.2, Output False, Sleep 0.2,
            Output True, Sleep 0.2, Output False, Sleep 0.2, Output True])"
    unfolding st cycles fin by simp
  with cfg ok nonneg pass stop st show ?thesis by blast
qed

section \<open>MQTT sessions (src/bus/mqtt_client.py, src/raspberry/mqtt_client.py)\<close>

text \<open>
  The fields of the two \<^verbatim>\<open>Config\<close> classes that the clients read. \<^verbatim>\<open>BUS_ID\<close> and
  \<^verbatim>\<open>ROUTE_ID\<close> belong to the bus device, \<^verbatim>\<open>STOP_ID\<close> to the stop device.
\<close>

record config =
  BUS_ID :: string
  ROUTE_ID :: string
  STOP_ID :: string
  HEARTBEAT_INTERVAL :: int

text \<open>The topic tables \<^verbatim>\<open>Config.get_topics\<close> (bus) and \<^verbatim>\<open>Config.get_mqtt_topics\<close> (stop).\<close>

definition bus_topic_route_call :: string where
  "bus_topic_route_call = ''device/button/+/+''"

definition bus_topic_bus_location :: "config \<Rightarrow> string" where
  "bus_topic_bus_location cfg = ''bus/location/'' @ BUS_ID cfg"

definition bus_topic_bus_status :: "config \<Rightarrow> string" where
  "bus_topic_bus_status cfg = ''bus/status/'' @ BUS_ID cfg"

definition topic_system_health :: string where
  "topic_system_health = ''system/health''"

definition stop_topic_button_press :: "config \<Rightarrow> string" where
  "stop_topic_button_press cfg = ''device/button/'' @ STOP_ID cfg"

definition stop_topic_led_control :: "config \<Rightarrow> string" where
  "stop_topic_led_control cfg = ''device/led/'' @ STOP_ID cfg @ ''/+''"

definition stop_topic_heartbeat :: "config \<Rightarrow> string" where
  "stop_topic_heartbeat cfg = ''device/heartbeat/'' @ STOP_ID cfg"

definition stop_topic_status :: "config \<Rightarrow> string" where
  "stop_topic_status cfg = ''device/status/'' @ STOP_ID cfg"

text \<open>
  The messages the clients build, without their timestamps, and the calls they make on
  the transport (the paho client object). \<open>Will_set\<close> registers the last will; it is
  not a publish.
\<close>

datatype message =
  Status string
| Heartbeat
| Location real real real real
| Button_press route_id string string

datatype transport_call =
  Will_set string message nat bool
| Connect_call
| Loop_start
| Loop_stop
| Disconnect_call
| Subscribe string nat
| Publish string message nat bool

fun is_publish :: "transport_call \<Rightarrow> bool" where
  "is_publish (Publish tp m qos retain) = True"
| "is_publish c = False"

text \<open>
  The client object. \<open>client\<close> tells whether \<^verbatim>\<open>self.client\<close> has been created;
  \<open>heartbeat_workers\<close> counts the heartbeat threads that have been started and have
  not left their loop. \<open>transport\<close> lists the transport calls made so far, each with
  the value \<^verbatim>\<open>self.is_connected\<close> had when the call was made.
\<close>

record 'h mqtt_client =
  client :: bool
  is_connected :: bool
  running :: bool
  message_callbacks :: "string \<rightharpoonup> 'h"
  heartbeat_workers :: nat
  transport :: "(bool \<times> transport_call) list"

definition mqtt_init :: "'h mqtt_client" where
  "mqtt_init = \<lparr>client = False, is_connected = False, running = False,
                message_callbacks = Map.empty, heartbeat_workers = 0, transport = []\<rparr>"

definition transport_do :: "'h mqtt_client \<Rightarrow> transport_call \<Rightarrow> 'h mqtt_client" where
  "transport_do s c = s\<lparr>transport := transport s @ [(is_connected s, c)]\<rparr>"

definition register_callback :: "'h mqtt_client \<Rightarrow> string \<Rightarrow> 'h \<Rightarrow> 'h mqtt_client" where
  "register_callback s event_type callback =
     s\<lparr>message_callbacks := (message_callbacks s)(event_type \<mapsto> callback)\<rparr>"

text \<open>
  What the network loop delivers while \<^verbatim>\<open>connect\<close> polls, and what
  \<^verbatim>\<open>client.connect\<close> does: raise, or return and let the loop deliver callbacks.
\<close>

datatype callback = On_connect nat | On_disconnect nat

datatype broker = Connect_raises | Delivered "callback list"

subsection \<open>Bus client\<close>

text \<open>
  \<^verbatim>\<open>initialize\<close> creates the client object and registers the last will; its library
  calls are taken to return normally.
\<close>

definition bus_initialize :: "config \<Rightarrow> 'h mqtt_client \<Rightarrow> 'h mqtt_client" where
  "bus_initialize cfg s =
     transport_do (s\<lparr>client := True\<rparr>)
       (Will_set (bus_topic_bus_status cfg) (Status ''offline'') 1 True)"

definition bus_on_connect :: "'h mqtt_client \<Rightarrow> nat \<Rightarrow> 'h mqtt_client" where
  "bus_on_connect s rc =
     (if rc = 0
      then transport_do (transport_do (s\<lparr>is_connected := True\<rparr>) (Subscribe bus_topic_route_call 1))
             (Subscribe topic_system_health 1)
      else s)"

definition bus_on_disconnect :: "'h mqtt_client \<Rightarrow> nat \<Rightarrow> 'h mqtt_client" where
  "bus_on_disconnect s rc = s\<lparr>is_connected := False\<rparr>"

fun bus_deliver :: "'h mqtt_client \<Rightarrow> callback \<Rightarrow> 'h mqtt_client" where
  "bus_deliver s (On_connect rc) = bus_on_connect s rc"
| "bus_deliver s (On_disconnect rc) = bus_on_disconnect s rc"

definition bus_publish_status :: "config \<Rightarrow> 'h mqtt_client \<Rightarrow> string \<Rightarrow> 'h mqtt_client" where
  "bus_publish_status cfg s status =
     (if \<not> client s then s
      else transport_do s (Publish (bus_topic_bus_status cfg) (Status status) 1 True))"

definition bus_publish_location ::
  "config \<Rightarrow> 'h mqtt_client \<Rightarrow> real \<Rightarrow> real \<Rightarrow> real \<Rightarrow> real \<Rightarrow> 'h mqtt_client" where
  "bus_publish_location cfg s latitude longitude speed heading =
     (if \<not> client s \<or> \<not> is_connected s then s
      else transport_do s
             (Publish (bus_topic_bus_location cfg) (Location latitude longitude speed heading) 0 False))"

definition start_heartbeat :: "'h mqtt_client \<Rightarrow> 'h mqtt_client" where
  "start_heartbeat s = s\<lparr>heartbeat_workers := Suc (heartbeat_workers s)\<rparr>"

text \<open>
  One pass of a heartbeat worker through its loop: the guard, and the body up to the
  sleep. A worker whose guard fails leaves the loop.
\<close>

definition bus_heartbeat_pass :: "config \<Rightarrow> 'h mqtt_client \<Rightarrow> 'h mqtt_client" where
  "bus_heartbeat_pass cfg s =
     (if running s \<and> is_connected s then bus_publish_status cfg s ''online''
      else s\<lparr>heartbeat_workers := heartbeat_workers s - 1\<rparr>)"

text \<open>
  The polling loop of \<^verbatim>\<open>connect\<close>: it looks at \<^verbatim>\<open>is_connected\<close> before each sleep and
  leaves as soon as it is set; the argument lists the callbacks the network loop
  delivers during the sleeps of the ten seconds.
\<close>

fun bus_wait_connected :: "'h mqtt_client \<Rightarrow> callback list \<Rightarrow> 'h mqtt_client" where
  "bus_wait_connected s [] = s"
| "bus_wait_connected s (cb # cbs) =
     (if is_connected s then s else bus_wait_connected (bus_deliver s cb) cbs)"

definition bus_connect :: "config \<Rightarrow> 'h mqtt_client \<Rightarrow> broker \<Rightarrow> bool \<times> 'h mqtt_client" where
  "bus_connect cfg s b =
     (if \<not> client s then (False, s)
      else case b of
        Connect_raises \<Rightarrow> (False, transport_do s Connect_call)
      | Delivered cbs \<Rightarrow>
          let s1 = transport_do (transport_do s Connect_call) Loop_start;
              s2 = s1\<lparr>running := True\<rparr>;
              s3 = bus_wait_connected s2 cbs
          in if is_connected s3
             then (True, bus_publish_status cfg (start_heartbeat s3) ''online'')
             else (False, s3))"

definition bus_disconnect :: "config \<Rightarrow> 'h mqtt_client \<Rightarrow> 'h mqtt_client" where
  "bus_disconnect cfg s =
     (let s1 = s\<lparr>running := False\<rparr>
      in if client s1 \<and> is_connected s1
         then transport_do (transport_do (bus_publish_status cfg s1 ''offline'') Loop_stop)
                Disconnect_call
         else s1)"

subsection \<open>Stop client\<close>

definition stop_initialize :: "config \<Rightarrow> 'h mqtt_client \<Rightarrow> 'h mqtt_client" where
  "stop_initialize cfg s =
     transport_do (s\<lparr>client := True\<rparr>)
       (Will_set (stop_topic_status cfg) (Status ''offline'') 1 True)"

definition stop_on_connect :: "config \<Rightarrow> 'h mqtt_client \<Rightarrow> nat \<Rightarrow> 'h mqtt_client" where
  "stop_on_connect cfg s rc =
     (if rc = 0
      then transport_do (transport_do (s\<lparr>is_connected := True\<rparr>) (Subscribe (stop_topic_led_control cfg) 1))
             (Subscribe topic_system_health 1)
      else s\<lparr>is_connected := False\<rparr>)"

definition stop_on_disconnect :: "'h mqtt_client \<Rightarrow> nat \<Rightarrow> 'h mqtt_client" where
  "stop_on_disconnect s rc = s\<lparr>is_connected := False\<rparr>"

fun stop_deliver :: "config \<Rightarrow> 'h mqtt_client \<Rightarrow> callback \<Rightarrow> 'h mqtt_client" where
  "stop_deliver cfg s (On_connect rc) = stop_on_connect cfg s rc"
| "stop_deliver cfg s (On_disconnect rc) = stop_on_disconnect s rc"

definition stop_publish_status :: "config \<Rightarrow> 'h mqtt_client \<Rightarrow> string \<Rightarrow> 'h mqtt_client" where
  "stop_publish_status cfg s status =
     (if \<not> client s then s
      else transport_do s (Publish (stop_topic_status cfg) (Status status) 1 True))"

text \<open>
  \<^verbatim>\<open>_publish_heartbeat\<close> and \<^verbatim>\<open>publish_button_press\<close> use \<^verbatim>\<open>self.client\<close> without
  looking whether it exists. Without a client object the attribute access raises:
  the heartbeat worker dies of it (first component \<open>False\<close>), \<^verbatim>\<open>publish_button_press\<close>
  catches it and returns \<^verbatim>\<open>False\<close>.
\<close>

definition stop_publish_heartbeat :: "config \<Rightarrow> 'h mqtt_client \<Rightarrow> bool \<times> 'h mqtt_client" where
  "stop_publish_heartbeat cfg s =
     (if \<not> is_connected s then (True, s)
      else if \<not> client s then (False, s)
      else (True, transport_do s (Publish (stop_topic_heartbeat cfg) Heartbeat 0 False)))"

text \<open>
  The outcome of \<^verbatim>\<open>client.publish\<close> for a button press: it returns a result with
  code \<open>rc\<close> (0 is \<^verbatim>\<open>MQTT_ERR_SUCCESS\<close>) or raises.
\<close>

datatype publish_outcome = Rc nat | Publish_raises

definition publish_button_press ::
  "config \<Rightarrow> 'h mqtt_client \<Rightarrow> route_id \<Rightarrow> string \<Rightarrow> string \<Rightarrow> publish_outcome \<Rightarrow>
   bool \<times> 'h mqtt_client" where
  "publish_button_press cfg s route_id route_name button_color outcome =
     (if \<not> is_connected s then (False, s)
      else if \<not> client s then (False, s)
      else
        let s' = transport_do s
                   (Publish (stop_topic_button_press cfg @ ''/'' @ route_id)
                      (Button_press route_id route_name button_color) 1 False)
        in case outcome of
             Rc rc \<Rightarrow> (rc = 0, s')
           | Publish_raises \<Rightarrow> (False, s'))"

definition stop_heartbeat_pass :: "config \<Rightarrow> 'h mqtt_client \<Rightarrow> 'h mqtt_client" where
  "stop_heartbeat_pass cfg s =
     (if running s \<and> is_connected s
      then (case stop_publish_heartbeat cfg s of
              (True, s') \<Rightarrow> s'
            | (False, s') \<Rightarrow> s'\<lparr>heartbeat_workers := heartbeat_workers s' - 1\<rparr>)
      else s\<lparr>heartbeat_workers := heartbeat_workers s - 1\<rparr>)"

fun stop_wait_connected :: "config \<Rightarrow> 'h mqtt_client \<Rightarrow> callback list \<Rightarrow> 'h mqtt_client" where
  "stop_wait_connected cfg s [] = s"
| "stop_wait_connected cfg s (cb # cbs) =
     (if is_connected s then s else stop_wait_connected cfg (stop_deliver cfg s cb) cbs)"

text \<open>
  The stop's \<^verbatim>\<open>connect\<close> has no test for a missing client: the attribute access
  raises inside the \<^verbatim>\<open>try\<close> and the method returns \<^verbatim>\<open>False\<close>.
\<close>

definition stop_connect :: "config \<Rightarrow> 'h mqtt_client \<Rightarrow> broker \<Rightarrow> bool \<times> 'h mqtt_client" where
  "stop_connect cfg s b =
     (if \<not> client s then (False, s)
      else case b of
        Connect_raises \<Rightarrow> (False, transport_do s Connect_call)
      | Delivered cbs \<Rightarrow>
          let s1 = transport_do (transport_do s Connect_call) Loop_start;
              s2 = s1\<lparr>running := True\<rparr>;
              s3 = stop_wait_connected cfg s2 cbs
          in if is_connected s3
             then (True, stop_publish_status cfg (start_heartbeat s3) ''online'')
             else (False, s3))"

text \<open>
  The stop's \<^verbatim>\<open>disconnect\<close> first waits up to two seconds for the heartbeat thread,
  which changes no field of the client.
\<close>

definition stop_disconnect :: "config \<Rightarrow> 'h mqtt_client \<Rightarrow> 'h mqtt_client" where
  "stop_disconnect cfg s =
     (let s1 = s\<lparr>running := False\<rparr>
      in if client s1 \<and> is_connected s1
         then transport_do (transport_do (stop_publish_status cfg s1 ''offline'') Loop_stop)
                Disconnect_call
         else s1)"

subsection \<open>Runs of a client\<close>

text \<open>
  Runs in which the operations of a client do not overlap: each event is one operation
  run to its end before the next starts. Callbacks come from the network loop of an
  existing client object; a heartbeat pass needs a started worker. \<^verbatim>\<open>_publish_status\<close>
  is private: it runs as part of \<^verbatim>\<open>connect\<close>, \<^verbatim>\<open>disconnect\<close> and the bus heartbeat
  pass. Inbound messages do not touch the client state and are left out. The overlap
  of the heartbeat worker with the network thread is the subject of a later
  subsection.
\<close>

datatype 'h bus_event =
  Bus_initialize
| Bus_register string 'h
| Bus_connect broker
| Bus_callback callback
| Bus_publish_location real real real real
| Bus_heartbeat_pass
| Bus_disconnect

fun bus_exec :: "config \<Rightarrow> 'h mqtt_client \<Rightarrow> 'h bus_event \<Rightarrow> 'h mqtt_client" where
  "bus_exec cfg s Bus_initialize = bus_initialize cfg s"
| "bus_exec cfg s (Bus_register event_type h) = register_callback s event_type h"
| "bus_exec cfg s (Bus_connect b) = snd (bus_connect cfg s b)"
| "bus_exec cfg s (Bus_callback cb) = (if client s then bus_deliver s cb else s)"
| "bus_exec cfg s (Bus_publish_location latitude longitude speed heading) =
     bus_publish_location cfg s latitude longitude speed heading"
| "bus_exec cfg s Bus_heartbeat_pass =
     (if 0 < heartbeat_workers s then bus_heartbeat_pass cfg s else s)"
| "bus_exec cfg s Bus_disconnect = bus_disconnect cfg s"

fun bus_run :: "config \<Rightarrow> 'h mqtt_client \<Rightarrow> 'h bus_event list \<Rightarrow> 'h mqtt_client" where
  "bus_run cfg s [] = s"
| "bus_run cfg s (e # es) = bus_run cfg (bus_exec cfg s e) es"

datatype 'h stop_event =
  Stop_initialize
| Stop_register string 'h
| Stop_connect broker
| Stop_callback callback
| Stop_publish_button_press route_id string string publish_outcome
| Stop_heartbeat_pass
| Stop_disconnect

fun stop_exec :: "config \<Rightarrow> 'h mqtt_client \<Rightarrow> 'h stop_event \<Rightarrow> 'h mqtt_client" where
  "stop_exec cfg s Stop_initialize = stop_initialize cfg s"
| "stop_exec cfg s (Stop_register event_type h) = register_callback s event_type h"
| "stop_exec cfg s (Stop_connect b) = snd (stop_connect cfg s b)"
| "stop_exec cfg s (Stop_callback cb) = (if client s then stop_deliver cfg s cb else s)"
| "stop_exec cfg s (Stop_publish_button_press route_id route_name button_color outcome) =
     snd (publish_button_press cfg s route_id route_name button_color outcome)"
| "stop_exec cfg s Stop_heartbeat_pass =
     (if 0 < heartbeat_workers s then stop_heartbeat_pass cfg s else s)"
| "stop_exec cfg s Stop_disconnect = stop_disconnect cfg s"

fun stop_run :: "config \<Rightarrow> 'h mqtt_client \<Rightarrow> 'h stop_event list \<Rightarrow> 'h mqtt_client" where
  "stop_run cfg s [] = s"
| "stop_run cfg s (e # es) = stop_run cfg (stop_exec cfg s e) es"

text \<open>Every publish among the transport calls was made with \<^verbatim>\<open>is_connected\<close> set.\<close>

definition publishes_connected :: "'h mqtt_client \<Rightarrow> bool" where
  "publishes_connected s \<longleftrightarrow> list_all (\<lambda>(c, call). is_publish call \<longrightarrow> c) (transport s)"

text \<open>\<^verbatim>\<open>is_connected\<close> is false before and after every event of a run.\<close>

fun bus_never_connected :: "config \<Rightarrow> 'h mqtt_client \<Rightarrow> 'h bus_event list \<Rightarrow> bool" where
  "bus_never_connected cfg s [] = (\<not> is_connected s)"
| "bus_never_connected cfg s (e # es) =
     (\<not> is_connected s \<and> bus_never_connected cfg (bus_exec cfg s e) es)"

fun stop_never_connected :: "config \<Rightarrow> 'h mqtt_client \<Rightarrow> 'h stop_event list \<Rightarrow> bool" where
  "stop_never_connected cfg s [] = (\<not> is_connected s)"
| "stop_never_connected cfg s (e # es) =
     (\<not> is_connected s \<and> stop_never_connected cfg (stop_exec cfg s e) es)"

subsection \<open>Heartbeat workers on a simulated clock\<close>

text \<open>
  A heartbeat worker from its start at clock reading \<open>now\<close>. Only its sleep advances
  the clock. The connection is closed at time \<open>closed_at\<close>: from then on the disconnect
  callback has run whenever the worker looks at the flags. The worker returns when its
  guard fails; the result lists the times at which it made a transport publish.
\<close>

partial_function (option) bus_heartbeat_worker ::
  "config \<Rightarrow> real \<Rightarrow> real \<Rightarrow> 'h mqtt_client \<Rightarrow> real list \<Rightarrow> ('h mqtt_client \<times> real list) option" where
  "bus_heartbeat_worker cfg closed_at now s sent_at =
     (let s0 = (if closed_at \<le> now then bus_on_disconnect s 1 else s)
      in if running s0 \<and> is_connected s0
         then
           let s1 = bus_publish_status cfg s0 ''online''
           in bus_heartbeat_worker cfg closed_at (now + real_of_int (HEARTBEAT_INTERVAL cfg)) s1
                (if transport s1 = transport s0 then sent_at else sent_at @ [now])
         else Some (s0\<lparr>heartbeat_workers := heartbeat_workers s0 - 1\<rparr>, sent_at))"

declare bus_heartbeat_worker.simps [code]

partial_function (option) stop_heartbeat_worker ::
  "config \<Rightarrow> real \<Rightarrow> real \<Rightarrow> 'h mqtt_client \<Rightarrow> real list \<Rightarrow> ('h mqtt_client \<times> real list) option" where
  "stop_heartbeat_worker cfg closed_at now s sent_at =
     (let s0 = (if closed_at \<le> now then stop_on_disconnect s 1 else s)
      in if running s0 \<and> is_connected s0
         then
           let r = stop_publish_heartbeat cfg s0; s1 = snd r
           in if fst r
              then stop_heartbeat_worker cfg closed_at (now + real_of_int (HEARTBEAT_INTERVAL cfg)) s1
                     (if transport s1 = transport s0 then sent_at else sent_at @ [now])
              else Some (s1\<lparr>heartbeat_workers := heartbeat_workers s1 - 1\<rparr>, sent_at)
         else Some (s0\<lparr>heartbeat_workers := heartbeat_workers s0 - 1\<rparr>, sent_at))"

declare stop_heartbeat_worker.simps [code]

text \<open>A session that has just connected: initialised, broker acknowledgement with code 0.\<close>

definition bus_connected :: "config \<Rightarrow> 'h mqtt_client" where
  "bus_connected cfg = snd (bus_connect cfg (bus_initialize cfg mqtt_init) (Delivered [On_connect 0]))"

definition stop_connected :: "config \<Rightarrow> 'h mqtt_client" where
  "stop_connected cfg = snd (stop_connect cfg (stop_initialize cfg mqtt_init) (Delivered [On_connect 0]))"

definition demo_cfg :: config where
  "demo_cfg = \<lparr>BUS_ID = ''BUS1'', ROUTE_ID = ''100'', STOP_ID = ''STOP001'', HEARTBEAT_INTERVAL = 30\<rparr>"


declare bus_heartbeat_worker.simps [code]
declare stop_heartbeat_worker.simps [code]


subsection \<open>The bus heartbeat worker beside the network thread\<close>

text \<open>
  The heartbeat worker of the bus and the network thread of the transport run at the
  same time. A pass of the worker through its loop is two steps: the guard
  \<^verbatim>\<open>self._running and self.is_connected\<close>, and, when it held, the call
  \<^verbatim>\<open>self._publish_status("online")\<close>. The network thread delivers the connect and
  disconnect callbacks, at any time. \<open>in_body\<close> tells that the worker has passed its
  guard and has not made the call yet. Each method of the client itself runs without
  interruption.
\<close>

record 'h bus_threads =
  session :: "'h mqtt_client"
  in_body :: bool

datatype thread_step = Worker_guard | Worker_publish | Network callback

fun bus_thread_step :: "config \<Rightarrow> 'h bus_threads \<Rightarrow> thread_step \<Rightarrow> 'h bus_threads" where
  "bus_thread_step cfg t Worker_guard =
     (if in_body t \<or> heartbeat_workers (session t) = 0 then t
      else if running (session t) \<and> is_connected (session t) then t\<lparr>in_body := True\<rparr>
      else t\<lparr>session := (session t)\<lparr>heartbeat_workers := heartbeat_workers (session t) - 1\<rparr>\<rparr>)"
| "bus_thread_step cfg t Worker_publish =
     (if in_body t
      then t\<lparr>session := bus_publish_status cfg (session t) ''online'', in_body := False\<rparr>
      else t)"
| "bus_thread_step cfg t (Network cb) =
     (if client (session t) then t\<lparr>session := bus_deliver (session t) cb\<rparr> else t)"

fun bus_thread_run :: "config \<Rightarrow> 'h bus_threads \<Rightarrow> thread_step list \<Rightarrow> 'h bus_threads" where
  "bus_thread_run cfg t [] = t"
| "bus_thread_run cfg t (x # xs) = bus_thread_run cfg (bus_thread_step cfg t x) xs"

section \<open>Properties of the sessions\<close>

subsection \<open>Publishes and the connection state\<close>

lemma publishes_connected_transport_do:
  "publishes_connected s \<Longrightarrow> (is_publish c \<longrightarrow> is_connected s) \<Longrightarrow>
   publishes_connected (transport_do s c)"
  by (simp add: publishes_connected_def transport_do_def)

lemma publishes_connected_transport_eq:
  "transport t = transport s \<Longrightarrow> publishes_connected t = publishes_connected s"
  by (simp add: publishes_connected_def)

lemma bus_publish_status_connected:
  "publishes_connected s \<Longrightarrow> is_connected s \<Longrightarrow> publishes_connected (bus_publish_status cfg s status)"
  by (simp add: bus_publish_status_def publishes_connected_transport_do)

lemma stop_publish_status_connected:
  "publishes_connected s \<Longrightarrow> is_connected s \<Longrightarrow> publishes_connected (stop_publish_status cfg s status)"
  by (simp add: stop_publish_status_def publishes_connected_transport_do)

lemma bus_deliver_connected:
  "publishes_connected s \<Longrightarrow> publishes_connected (bus_deliver s cb)"
  by (cases cb)
    (simp_all add: bus_on_connect_def bus_on_disconnect_def publishes_connected_def transport_do_def)

lemma stop_deliver_connected:
  "publishes_connected s \<Longrightarrow> publishes_connected (stop_deliver cfg s cb)"
  by (cases cb)
    (simp_all add: stop_on_connect_def stop_on_disconnect_def publishes_connected_def transport_do_def)

lemma bus_wait_connected_connected:
  "publishes_connected s \<Longrightarrow> publishes_connected (bus_wait_connected s cbs)"
  by (induction cbs arbitrary: s) (simp_all add: bus_deliver_connected)

lemma stop_wait_connected_connected:
  "publishes_connected s \<Longrightarrow> publishes_connected (stop_wait_connected cfg s cbs)"
  by (induction cbs arbitrary: s) (simp_all add: stop_deliver_connected)

lemma bus_connect_connected:
  assumes "publishes_connected s"
  shows "publishes_connected (snd (bus_connect cfg s b))"
proof (cases "client s")
  case False
  with assms show ?thesis by (simp add: bus_connect_def)
next
  case True
  show ?thesis
  proof (cases b)
    case Connect_raises
    with True assms show ?thesis
      by (simp add: bus_connect_def publishes_connected_transport_do)
  next
    case (Delivered cbs)
    let ?s2 = "(transport_do (transport_do s Connect_call) Loop_start)\<lparr>running := True\<rparr>"
    let ?s3 = "bus_wait_connected ?s2 cbs"
    from assms have "publishes_connected ?s2"
      by (simp add: publishes_connected_def transport_do_def)
    then have s3: "publishes_connected ?s3"
      by (rule bus_wait_connected_connected)
    show ?thesis
    proof (cases "is_connected ?s3")
      case False
      with True Delivered s3 show ?thesis by (simp add: bus_connect_def Let_def)
    next
      case conn: True
      from s3 have "publishes_connected (start_heartbeat ?s3)"
        by (simp add: publishes_connected_def start_heartbeat_def)
      moreover from conn have "is_connected (start_heartbeat ?s3)"
        by (simp add: start_heartbeat_def)
      ultimately have "publishes_connected (bus_publish_status cfg (start_heartbeat ?s3) ''online'')"
        by (rule bus_publish_status_connected)
      with True Delivered conn show ?thesis by (simp add: bus_connect_def Let_def)
    qed
  qed
qed

lemma stop_connect_connected:
  assumes "publishes_connected s"
  shows "publishes_connected (snd (stop_connect cfg s b))"
proof (cases "client s")
  case False
  with assms show ?thesis by (simp add: stop_connect_def)
next
  case True
  show ?thesis
  proof (cases b)
    case Connect_raises
    with True assms show ?thesis
      by (simp add: stop_connect_def publishes_connected_transport_do)
  next
    case (Delivered cbs)
    let ?s2 = "(transport_do (transport_do s Connect_call) Loop_start)\<lparr>running := True\<rparr>"
    let ?s3 = "stop_wait_connected cfg ?s2 cbs"
    from assms have "publishes_connected ?s2"
      by (simp add: publishes_connected_def transport_do_def)
    then have s3: "publishes_connected ?s3"
      by (rule stop_wait_connected_connected)
    show ?thesis
    proof (cases "is_connected ?s3")
      case False
      with True Delivered s3 show ?thesis by (simp add: stop_connect_def Let_def)
    next
      case conn: True
      from s3 have "publishes_connected (start_heartbeat ?s3)"
        by (simp add: publishes_connected_def start_heartbeat_def)
      moreover from conn have "is_connected (start_heartbeat ?s3)"
        by (simp add: start_heartbeat_def)
      ultimately have "publishes_connected (stop_publish_status cfg (start_heartbeat ?s3) ''online'')"
        by (rule stop_publish_status_connected)
      with True Delivered conn show ?thesis by (simp add: stop_connect_def Let_def)
    qed
  qed
qed

lemma bus_disconnect_connected:
  "publishes_connected s \<Longrightarrow> publishes_connected (bus_disconnect cfg s)"
  by (simp add: bus_disconnect_def Let_def bus_publish_status_def publishes_connected_def transport_do_def)

lemma stop_disconnect_connected:
  "publishes_connected s \<Longrightarrow> publishes_connected (stop_disconnect cfg s)"
  by (simp add: stop_disconnect_def Let_def stop_publish_status_def publishes_connected_def transport_do_def)

lemma bus_exec_connected:
  "publishes_connected s \<Longrightarrow> publishes_connected (bus_exec cfg s e)"
proof (cases e)
  case (Bus_connect b)
  assume "publishes_connected s"
  with Bus_connect show ?thesis by (simp add: bus_connect_connected)
next
  case (Bus_callback cb)
  assume "publishes_connected s"
  with Bus_callback show ?thesis by (simp add: bus_deliver_connected)
next
  case Bus_disconnect
  assume "publishes_connected s"
  with Bus_disconnect show ?thesis by (simp add: bus_disconnect_connected)
qed (simp_all add: bus_initialize_def register_callback_def bus_publish_location_def
      bus_heartbeat_pass_def bus_publish_status_def publishes_connected_def transport_do_def)

lemma stop_exec_connected:
  "publishes_connected s \<Longrightarrow> publishes_connected (stop_exec cfg s e)"
proof (cases e)
  case (Stop_connect b)
  assume "publishes_connected s"
  with Stop_connect show ?thesis by (simp add: stop_connect_connected)
next
  case (Stop_callback cb)
  assume "publishes_connected s"
  with Stop_callback show ?thesis by (simp add: stop_deliver_connected)
next
  case Stop_disconnect
  assume "publishes_connected s"
  with Stop_disconnect show ?thesis by (simp add: stop_disconnect_connected)
qed (auto simp: stop_initialize_def register_callback_def publish_button_press_def
      stop_heartbeat_pass_def stop_publish_heartbeat_def publishes_connected_def transport_do_def
      Let_def split: publish_outcome.splits)

lemma bus_run_connected:
  "publishes_connected s \<Longrightarrow> publishes_connected (bus_run cfg s es)"
  by (induction es arbitrary: s) (simp_all add: bus_exec_connected)

lemma stop_run_connected:
  "publishes_connected s \<Longrightarrow> publishes_connected (stop_run cfg s es)"
  by (induction es arbitrary: s) (simp_all add: stop_exec_connected)

lemma mqtt_init_connected: "publishes_connected mqtt_init"
  by (simp add: publishes_connected_def mqtt_init_def)

text \<open>
  So in runs whose operations do not overlap, the tests of \<^verbatim>\<open>is_connected\<close> at the call
  sites of \<^verbatim>\<open>_publish_status\<close> and inside the other publish methods keep every publish
  within the connected state.
\<close>

lemma sequential_runs_publish_connected:
  "publishes_connected (bus_run cfg mqtt_init bus_events) \<and>
   publishes_connected (stop_run cfg mqtt_init stop_events)"
  by (simp add: mqtt_init_connected bus_run_connected stop_run_connected)

lemma unconnected_requests_dropped:
  assumes "\<not> is_connected s"
  shows "bus_publish_location cfg s latitude longitude speed heading = s"
    and "stop_publish_heartbeat cfg s = (True, s)"
    and "publish_button_press cfg s route_id route_name button_color outcome = (False, s)"
  using assms
  by (simp_all add: bus_publish_location_def stop_publish_heartbeat_def publish_button_press_def)

text \<open>
  A session breaks the invariant exactly when its transport calls hold a publish made
  while \<^verbatim>\<open>is_connected\<close> was false.
\<close>

lemma publishes_connected_iff:
  "publishes_connected s \<longleftrightarrow>
     \<not> list_ex (\<lambda>(c, call). is_publish call \<and> \<not> c) (transport s)"
  by (auto simp add: publishes_connected_def list_all_iff list_ex_iff)

text \<open>
  C1. The claim does not hold of the code for status publishes. \<^verbatim>\<open>_publish_status\<close>
  tests only that the client object exists; the test of \<^verbatim>\<open>is_connected\<close> is made by
  its callers, a step earlier. On a connected bus session (the worker's guard holds)
  the heartbeat worker passes its guard, the network thread then delivers the
  disconnect callback, and the worker goes on to call \<^verbatim>\<open>_publish_status\<close>: the status
  publish reaches the transport although \<^verbatim>\<open>is_connected\<close> is false, as the last entry
  of the transport calls shows: a publish made while not connected. The other publish
  methods test \<^verbatim>\<open>is_connected\<close> themselves: the stop's \<^verbatim>\<open>_publish_heartbeat\<close>, called after
  the same disconnect, makes no transport call.
\<close>

theorem status_publish_after_drop:
  "running (bus_connected demo_cfg :: unit mqtt_client) \<and>
   is_connected (bus_connected demo_cfg :: unit mqtt_client) \<and>
   is_connected (session (bus_thread_run demo_cfg
       \<lparr>session = bus_connected demo_cfg :: unit mqtt_client, in_body = False\<rparr>
       [Worker_guard, Network (On_disconnect 1)])) = False \<and>
   transport (session (bus_thread_run demo_cfg
       \<lparr>session = bus_connected demo_cfg :: unit mqtt_client, in_body = False\<rparr>
       [Worker_guard, Network (On_disconnect 1), Worker_publish])) =
     [(False, Will_set ''bus/status/BUS1'' (Status ''offline'') 1 True),
      (False, Connect_call), (False, Loop_start),
      (True, Subscribe ''device/button/+/+'' 1), (True, Subscribe ''system/health'' 1),
      (True, Publish ''bus/status/BUS1'' (Status ''online'') 1 True),
      (False, Publish ''bus/status/BUS1'' (Status ''online'') 1 True)] \<and>
   list_ex (\<lambda>(c, call). is_publish call \<and> \<not> c)
     (transport (session (bus_thread_run demo_cfg
       \<lparr>session = bus_connected demo_cfg :: unit mqtt_client, in_body = False\<rparr>
       [Worker_guard, Network (On_disconnect 1), Worker_publish]))) \<and>
   stop_publish_heartbeat demo_cfg (stop_on_disconnect (stop_connected demo_cfg :: unit mqtt_client) 1)
     = (True, stop_on_disconnect (stop_connected demo_cfg) 1)"
proof -
  have c: "bus_connected demo_cfg =
      \<lparr>client = True, is_connected = True, running = True,
       message_callbacks = Map.empty :: string \<rightharpoonup> unit, heartbeat_workers = Suc 0,
       transport =
         [(False, Will_set ''bus/status/BUS1'' (Status ''offline'') 1 True),
          (False, Connect_call), (False, Loop_start),
          (True, Subscribe ''device/button/+/+'' 1), (True, Subscribe ''system/health'' 1),
          (True, Publish ''bus/status/BUS1'' (Status ''online'') 1 True)]\<rparr>"
    by (simp add: bus_connected_def bus_connect_def bus_initialize_def bus_on_connect_def
        bus_publish_status_def start_heartbeat_def transport_do_def mqtt_init_def Let_def
        bus_topic_bus_status_def bus_topic_route_call_def topic_system_health_def demo_cfg_def)
  show ?thesis
    unfolding c
    by (simp add: bus_on_disconnect_def bus_publish_status_def transport_do_def
        bus_topic_bus_status_def demo_cfg_def
        stop_publish_heartbeat_def stop_on_disconnect_def)
qed

subsection \<open>Shutdown\<close>

text \<open>
  C9, refuted as stated: a session that connected and then lost its connection
  (disconnect callback with a nonzero code) is shut down without an offline publish.
  The transport calls of the whole run end with the online publish of \<^verbatim>\<open>connect\<close>.
\<close>

theorem disconnect_after_drop_counterexample:
  "is_connected (bus_run demo_cfg (mqtt_init :: unit mqtt_client)
     [Bus_initialize, Bus_connect (Delivered [On_connect 0])]) \<and>
   transport (bus_run demo_cfg (mqtt_init :: unit mqtt_client)
     [Bus_initialize, Bus_connect (Delivered [On_connect 0]), Bus_callback (On_disconnect 1),
      Bus_disconnect]) =
     [(False, Will_set ''bus/status/BUS1'' (Status ''offline'') 1 True),
      (False, Connect_call), (False, Loop_start),
      (True, Subscribe ''device/button/+/+'' 1), (True, Subscribe ''system/health'' 1),
      (True, Publish ''bus/status/BUS1'' (Status ''online'') 1 True)]"
  by (simp add: bus_initialize_def bus_connect_def bus_on_connect_def
      bus_on_disconnect_def bus_publish_status_def bus_disconnect_def start_heartbeat_def
      transport_do_def mqtt_init_def Let_def bus_topic_bus_status_def bus_topic_route_call_def
      topic_system_health_def demo_cfg_def)

lemma bus_never_connected_end:
  "bus_never_connected cfg s es \<Longrightarrow> \<not> is_connected (bus_run cfg s es)"
  by (induction es arbitrary: s) simp_all

lemma stop_never_connected_end:
  "stop_never_connected cfg s es \<Longrightarrow> \<not> is_connected (stop_run cfg s es)"
  by (induction es arbitrary: s) simp_all

text \<open>
  C9, amended. \<^verbatim>\<open>disconnect\<close> makes the retained offline status publish (followed by
  stopping the loop and closing the transport) exactly when the client exists and
  \<^verbatim>\<open>is_connected\<close> is true at the time of the call, on both devices; otherwise it makes
  no transport call. In particular a run in which the session was never connected
  ends without the offline publish.
\<close>

theorem disconnect_offline_iff_connected_at_call:
  "transport (bus_disconnect cfg s) =
     (if client s \<and> is_connected s
      then transport s @ [(True, Publish (bus_topic_bus_status cfg) (Status ''offline'') 1 True),
                          (True, Loop_stop), (True, Disconnect_call)]
      else transport s) \<and>
   transport (stop_disconnect cfg s) =
     (if client s \<and> is_connected s
      then transport s @ [(True, Publish (stop_topic_status cfg) (Status ''offline'') 1 True),
                          (True, Loop_stop), (True, Disconnect_call)]
      else transport s) \<and>
   (bus_never_connected cfg mqtt_init bus_events \<longrightarrow>
      transport (bus_disconnect cfg (bus_run cfg mqtt_init bus_events))
        = transport (bus_run cfg mqtt_init bus_events)) \<and>
   (stop_never_connected cfg mqtt_init stop_events \<longrightarrow>
      transport (stop_disconnect cfg (stop_run cfg mqtt_init stop_events))
        = transport (stop_run cfg mqtt_init stop_events))"
proof (intro conjI impI)
  show "transport (bus_disconnect cfg s) =
     (if client s \<and> is_connected s
      then transport s @ [(True, Publish (bus_topic_bus_status cfg) (Status ''offline'') 1 True),
                          (True, Loop_stop), (True, Disconnect_call)]
      else transport s)"
    by (simp add: bus_disconnect_def Let_def bus_publish_status_def transport_do_def)
  show "transport (stop_disconnect cfg s) =
     (if client s \<and> is_connected s
      then transport s @ [(True, Publish (stop_topic_status cfg) (Status ''offline'') 1 True),
                          (True, Loop_stop), (True, Disconnect_call)]
      else transport s)"
    by (simp add: stop_disconnect_def Let_def stop_publish_status_def transport_do_def)
next
  assume "bus_never_connected cfg mqtt_init bus_events"
  then have "\<not> is_connected (bus_run cfg mqtt_init bus_events)"
    by (rule bus_never_connected_end)
  then show "transport (bus_disconnect cfg (bus_run cfg mqtt_init bus_events))
        = transport (bus_run cfg mqtt_init bus_events)"
    by (simp add: bus_disconnect_def)
next
  assume "stop_never_connected cfg mqtt_init stop_events"
  then have "\<not> is_connected (stop_run cfg mqtt_init stop_events)"
    by (rule stop_never_connected_end)
  then show "transport (stop_disconnect cfg (stop_run cfg mqtt_init stop_events))
        = transport (stop_run cfg mqtt_init stop_events)"
    by (simp add: stop_disconnect_def)
qed

text \<open>
  Two runs in which the broker refuses the connection (acknowledgement code 5), so
  that the session is never connected, and the shutdown of a connected session.
\<close>

definition bus_refused_events :: "unit bus_event list" where
  "bus_refused_events = [Bus_initialize, Bus_connect (Delivered [On_connect 5])]"

definition stop_refused_events :: "unit stop_event list" where
  "stop_refused_events = [Stop_initialize, Stop_connect (Delivered [On_connect 5])]"

theorem disconnect_offline_iff_connected_at_call_witness:
  "bus_never_connected demo_cfg mqtt_init bus_refused_events \<and>
   stop_never_connected demo_cfg mqtt_init stop_refused_events \<and>
   transport (bus_disconnect demo_cfg (bus_run demo_cfg mqtt_init bus_refused_events))
     = transport (bus_run demo_cfg mqtt_init bus_refused_events) \<and>
   transport (stop_disconnect demo_cfg (stop_run demo_cfg mqtt_init stop_refused_events))
     = transport (stop_run demo_cfg mqtt_init stop_refused_events) \<and>
   transport (stop_disconnect demo_cfg (stop_connected demo_cfg :: unit mqtt_client)) =
     transport (stop_connected demo_cfg :: unit mqtt_client) @
       [(True, Publish ''device/status/STOP001'' (Status ''offline'') 1 True),
        (True, Loop_stop), (True, Disconnect_call)]"
proof -
  have b: "bus_never_connected demo_cfg mqtt_init bus_refused_events"
    by (simp add: bus_refused_events_def bus_initialize_def bus_connect_def bus_on_connect_def
        transport_do_def mqtt_init_def Let_def)
  have s: "stop_never_connected demo_cfg mqtt_init stop_refused_events"
    by (simp add: stop_refused_events_def stop_initialize_def stop_connect_def stop_on_connect_def
        transport_do_def mqtt_init_def Let_def)
  have c: "client (stop_connected demo_cfg :: unit mqtt_client) \<and>
           is_connected (stop_connected demo_cfg :: unit mqtt_client)"
    by (simp add: stop_connected_def stop_initialize_def stop_connect_def stop_on_connect_def
        stop_publish_status_def start_heartbeat_def transport_do_def mqtt_init_def Let_def)
  have t: "stop_topic_status demo_cfg = ''device/status/STOP001''"
    by (simp add: stop_topic_status_def demo_cfg_def)
  from disconnect_offline_iff_connected_at_call
    [of demo_cfg "stop_connected demo_cfg :: unit mqtt_client" bus_refused_events stop_refused_events]
  show ?thesis
    unfolding t using b s c by simp
qed

subsection \<open>Heartbeat\<close>

lemma bus_publish_status_flags:
  "running (bus_publish_status cfg s st) = running s"
  "is_connected (bus_publish_status cfg s st) = is_connected s"
  "client (bus_publish_status cfg s st) = client s"
  by (simp_all add: bus_publish_status_def transport_do_def)

lemma bus_publish_status_sends:
  "client s \<Longrightarrow> transport (bus_publish_status cfg s st) \<noteq> transport s"
  by (simp add: bus_publish_status_def transport_do_def)

lemma bus_heartbeat_worker_publishes:
  assumes "running s" and "is_connected s" and "client s" and "now < closed_at"
  shows "bus_heartbeat_worker cfg closed_at now s sent_at =
         bus_heartbeat_worker cfg closed_at (now + real_of_int (HEARTBEAT_INTERVAL cfg))
           (bus_publish_status cfg s ''online'') (sent_at @ [now])"
  using assms
  by (subst bus_heartbeat_worker.simps) (simp add: Let_def bus_publish_status_sends)

lemma bus_heartbeat_worker_leaves:
  assumes "closed_at \<le> now"
  shows "map_option snd (bus_heartbeat_worker cfg closed_at now s sent_at) = Some sent_at"
  using assms
  by (subst bus_heartbeat_worker.simps) (simp add: Let_def bus_on_disconnect_def)

lemma stop_publish_heartbeat_connected:
  assumes "is_connected s" and "client s"
  shows "fst (stop_publish_heartbeat cfg s)"
    and "running (snd (stop_publish_heartbeat cfg s)) = running s"
    and "is_connected (snd (stop_publish_heartbeat cfg s))"
    and "client (snd (stop_publish_heartbeat cfg s))"
    and "transport (snd (stop_publish_heartbeat cfg s)) \<noteq> transport s"
  using assms by (simp_all add: stop_publish_heartbeat_def transport_do_def)

lemma stop_heartbeat_worker_publishes:
  assumes "running s" and "is_connected s" and "client s" and "now < closed_at"
  shows "stop_heartbeat_worker cfg closed_at now s sent_at =
         stop_heartbeat_worker cfg closed_at (now + real_of_int (HEARTBEAT_INTERVAL cfg))
           (snd (stop_publish_heartbeat cfg s)) (sent_at @ [now])"
  using assms
  by (subst stop_heartbeat_worker.simps) (simp add: Let_def stop_publish_heartbeat_connected)

lemma stop_heartbeat_worker_leaves:
  assumes "closed_at \<le> now"
  shows "map_option snd (stop_heartbeat_worker cfg closed_at now s sent_at) = Some sent_at"
  using assms
  by (subst stop_heartbeat_worker.simps) (simp add: Let_def stop_on_disconnect_def)

lemma bus_connected_flags:
  "running (bus_connected cfg)" "is_connected (bus_connected cfg)" "client (bus_connected cfg)"
  by (simp_all add: bus_connected_def bus_connect_def bus_initialize_def bus_on_connect_def
      bus_publish_status_def start_heartbeat_def transport_do_def mqtt_init_def Let_def)

lemma stop_connected_flags:
  "running (stop_connected cfg)" "is_connected (stop_connected cfg)" "client (stop_connected cfg)"
  by (simp_all add: stop_connected_def stop_connect_def stop_initialize_def stop_on_connect_def
      stop_publish_status_def start_heartbeat_def transport_do_def mqtt_init_def Let_def)

definition heartbeat_times :: "('h mqtt_client \<times> real list) option \<Rightarrow> real list option" where
  "heartbeat_times = map_option snd"

lemma bus_heartbeat_four:
  assumes flags: "running s" "is_connected s" "client s"
    and i: "HEARTBEAT_INTERVAL cfg = 30" and lo: "90 < closed_at" and hi: "closed_at \<le> 120"
  shows "heartbeat_times (bus_heartbeat_worker cfg closed_at 0 s []) = Some [0, 30, 60, 90]"
proof -
  let ?s1 = "bus_publish_status cfg s ''online''"
  let ?s2 = "bus_publish_status cfg ?s1 ''online''"
  let ?s3 = "bus_publish_status cfg ?s2 ''online''"
  let ?s4 = "bus_publish_status cfg ?s3 ''online''"
  have "bus_heartbeat_worker cfg closed_at 0 s [] = bus_heartbeat_worker cfg closed_at 30 ?s1 [0]"
    using bus_heartbeat_worker_publishes [of s 0 closed_at cfg "[]"] flags lo by (simp add: i)
  also have "\<dots> = bus_heartbeat_worker cfg closed_at 60 ?s2 [0, 30]"
    using bus_heartbeat_worker_publishes [of ?s1 30 closed_at cfg "[0]"] flags lo
    by (simp add: i bus_publish_status_flags)
  also have "\<dots> = bus_heartbeat_worker cfg closed_at 90 ?s3 [0, 30, 60]"
    using bus_heartbeat_worker_publishes [of ?s2 60 closed_at cfg "[0, 30]"] flags lo
    by (simp add: i bus_publish_status_flags)
  also have "\<dots> = bus_heartbeat_worker cfg closed_at 120 ?s4 [0, 30, 60, 90]"
    using bus_heartbeat_worker_publishes [of ?s3 90 closed_at cfg "[0, 30, 60]"] flags lo
    by (simp add: i bus_publish_status_flags)
  finally show ?thesis
    using bus_heartbeat_worker_leaves [OF hi, of cfg ?s4 "[0, 30, 60, 90]"]
    by (simp add: heartbeat_times_def)
qed

lemma stop_heartbeat_four:
  assumes flags: "running s" "is_connected s" "client s"
    and i: "HEARTBEAT_INTERVAL cfg = 30" and lo: "90 < closed_at" and hi: "closed_at \<le> 120"
  shows "heartbeat_times (stop_heartbeat_worker cfg closed_at 0 s []) = Some [0, 30, 60, 90]"
proof -
  let ?s1 = "snd (stop_publish_heartbeat cfg s)"
  let ?s2 = "snd (stop_publish_heartbeat cfg ?s1)"
  let ?s3 = "snd (stop_publish_heartbeat cfg ?s2)"
  let ?s4 = "snd (stop_publish_heartbeat cfg ?s3)"
  have f1: "running ?s1" "is_connected ?s1" "client ?s1"
    using flags by (simp_all add: stop_publish_heartbeat_connected)
  then have f2: "running ?s2" "is_connected ?s2" "client ?s2"
    by (simp_all add: stop_publish_heartbeat_connected)
  then have f3: "running ?s3" "is_connected ?s3" "client ?s3"
    by (simp_all add: stop_publish_heartbeat_connected)
  have "stop_heartbeat_worker cfg closed_at 0 s [] = stop_heartbeat_worker cfg closed_at 30 ?s1 [0]"
    using stop_heartbeat_worker_publishes [OF flags, of 0 closed_at cfg "[]"] lo by (simp add: i)
  also have "\<dots> = stop_heartbeat_worker cfg closed_at 60 ?s2 [0, 30]"
    using stop_heartbeat_worker_publishes [OF f1, of 30 closed_at cfg "[0]"] lo by (simp add: i)
  also have "\<dots> = stop_heartbeat_worker cfg closed_at 90 ?s3 [0, 30, 60]"
    using stop_heartbeat_worker_publishes [OF f2, of 60 closed_at cfg "[0, 30]"] lo by (simp add: i)
  also have "\<dots> = stop_heartbeat_worker cfg closed_at 120 ?s4 [0, 30, 60, 90]"
    using stop_heartbeat_worker_publishes [OF f3, of 90 closed_at cfg "[0, 30, 60]"] lo by (simp add: i)
  finally show ?thesis
    using stop_heartbeat_worker_leaves [OF hi, of cfg ?s4 "[0, 30, 60, 90]"]
    by (simp add: heartbeat_times_def)
qed

text \<open>
  C2, refuted as stated: with an interval of 30 and a session connected at time 0 whose
  connection closes at 95, the stop's heartbeat worker publishes four times, the first
  time at once, and not exactly at 30, 60 and 90.
\<close>

theorem heartbeat_three_publishes_counterexample:
  "HEARTBEAT_INTERVAL demo_cfg = 30 \<and>
   heartbeat_times (stop_heartbeat_worker demo_cfg 95 0 (stop_connected demo_cfg :: unit mqtt_client) [])
     = Some [0, 30, 60, 90] \<and>
   heartbeat_times (stop_heartbeat_worker demo_cfg 95 0 (stop_connected demo_cfg :: unit mqtt_client) [])
     \<noteq> Some [30, 60, 90]"
proof -
  have i: "HEARTBEAT_INTERVAL demo_cfg = 30" by (simp add: demo_cfg_def)
  have "heartbeat_times (stop_heartbeat_worker demo_cfg 95 0 (stop_connected demo_cfg :: unit mqtt_client) [])
     = Some [0, 30, 60, 90]"
    by (rule stop_heartbeat_four) (simp_all add: stop_connected_flags i)
  with i show ?thesis by simp
qed

text \<open>
  C2, amended. With an interval of 30, a heartbeat worker started when the session
  connects at time 0 publishes before its first sleep: if the connection stays up
  for 95 seconds (for any length of more than 90 and at most 120 seconds), the worker
  makes exactly four heartbeat publishes, at times 0, 30, 60 and 90, and then leaves
  its loop. This holds for the bus (status publishes) and for the stop.
\<close>

theorem heartbeat_four_publishes:
  assumes "HEARTBEAT_INTERVAL cfg = 30" and "90 < closed_at" and "closed_at \<le> 120"
  shows "heartbeat_times (bus_heartbeat_worker cfg closed_at 0 (bus_connected cfg) [])
           = Some [0, 30, 60, 90] \<and>
         heartbeat_times (stop_heartbeat_worker cfg closed_at 0 (stop_connected cfg) [])
           = Some [0, 30, 60, 90]"
  using assms bus_heartbeat_four [of "bus_connected cfg" cfg closed_at]
    stop_heartbeat_four [of "stop_connected cfg" cfg closed_at]
  by (simp add: bus_connected_flags stop_connected_flags)

theorem heartbeat_four_publishes_witness:
  "HEARTBEAT_INTERVAL demo_cfg = 30 \<and> (90::real) < 95 \<and> (95::real) \<le> 120 \<and>
   heartbeat_times (bus_heartbeat_worker demo_cfg 95 0 (bus_connected demo_cfg :: unit mqtt_client) [])
     = Some [0, 30, 60, 90] \<and>
   heartbeat_times (stop_heartbeat_worker demo_cfg 95 0 (stop_connected demo_cfg :: unit mqtt_client) [])
     = Some [0, 30, 60, 90]"
proof -
  have i: "HEARTBEAT_INTERVAL demo_cfg = 30" by (simp add: demo_cfg_def)
  have lo: "(90::real) < 95" by simp
  have hi: "(95::real) \<le> 120" by simp
  from i lo hi heartbeat_four_publishes [OF i lo hi] show ?thesis by blast
qed


section \<open>Button presses on the stop (src/raspberry/main.py)\<close>

text \<open>The handlers \<^verbatim>\<open>BusStopSystem._setup_event_handlers\<close> registers.\<close>

datatype stop_handler = On_button_pressed | On_led_control | On_system_health

definition setup_event_handlers ::
  "(route_id \<rightharpoonup> route_config) \<Rightarrow> stop_handler gpio_controller \<times> stop_handler mqtt_client \<Rightarrow>
   stop_handler gpio_controller \<times> stop_handler mqtt_client" where
  "setup_event_handlers routes sys =
     ((fst sys)\<lparr>button_callbacks :=
         (\<lambda>r. if routes r = None then button_callbacks (fst sys) r else Some On_button_pressed)\<rparr>,
      register_callback (register_callback (snd sys) ''led_control'' On_led_control)
        ''system_health'' On_system_health)"

text \<open>
  \<^verbatim>\<open>_on_button_pressed\<close>. The arguments of the publish call are read from the route
  dictionary first: a missing \<^verbatim>\<open>color\<close> raises \<^verbatim>\<open>KeyError\<close>, which the handler catches
  and logs, and then there is neither a publish call nor a blink. Otherwise there is
  one call of \<^verbatim>\<open>publish_button_press\<close>, then \<^verbatim>\<open>blink_led\<close> with the arguments chosen by
  the boolean it returned. The result is the client state and the arguments (route,
  duration, interval) of the blink thread, if one is started.
\<close>

definition on_button_pressed ::
  "config \<Rightarrow> 'h mqtt_client \<Rightarrow> route_id \<Rightarrow> route_config \<Rightarrow> publish_outcome \<Rightarrow>
   'h mqtt_client \<times> (route_id \<times> real \<times> real) option" where
  "on_button_pressed cfg m route_id rcfg outcome =
     (case color rcfg of
        None \<Rightarrow> (m, None)
      | Some button_color \<Rightarrow>
          let r = publish_button_press cfg m route_id (name rcfg) button_color outcome;
              success = fst r
          in if success then (snd r, Some (route_id, 1.0, 0.2))
             else (snd r, Some (route_id, 2.0, 0.1)))"

text \<open>
  A physical edge from the pin to the feedback: \<^verbatim>\<open>_button_callback\<close> and, when it starts
  a thread for the registered button handler, that thread run to its end.
\<close>

definition on_physical_edge ::
  "gpio_env \<Rightarrow> config \<Rightarrow> real \<Rightarrow> stop_handler gpio_controller \<times> 'h mqtt_client \<Rightarrow>
   route_id \<Rightarrow> int \<Rightarrow> publish_outcome \<Rightarrow>
   (stop_handler gpio_controller \<times> 'h mqtt_client) \<times> (route_id \<times> real \<times> real) option" where
  "on_physical_edge env cfg now sys route_id channel outcome =
     (case button_callback env now (fst sys) route_id channel of
        (g', None) \<Rightarrow> ((g', snd sys), None)
      | (g', Some (h, r, rcfg)) \<Rightarrow>
          (case h of
             On_button_pressed \<Rightarrow>
               let res = on_button_pressed cfg (snd sys) r rcfg outcome
               in ((g', fst res), snd res)
           | _ \<Rightarrow> ((g', snd sys), None)))"

section \<open>Inbound messages\<close>

text \<open>
  An inbound message: its topic and the result of \<^verbatim>\<open>msg.payload.decode()\<close>, which is
  \<open>None\<close> when the bytes are not valid UTF-8 and the call raises. \<^verbatim>\<open>json.loads\<close> is a
  parameter \<open>loads\<close> of the handlers. On a text it returns a value, raises
  \<^verbatim>\<open>json.JSONDecodeError\<close>, or raises another exception (\<^verbatim>\<open>RecursionError\<close> on deeply
  nested input, \<^verbatim>\<open>ValueError\<close> on an oversized number).
\<close>

record inbound =
  topic :: string
  payload_text :: "string option"

datatype py_error = UnicodeDecodeError | RecursionError | ValueError

datatype loads_result = Loaded json | JSONDecodeError | Loads_raises py_error

datatype decoded = Parsed json | Raw string

datatype routed =
  ButtonPress string string
| ControlCommand string
| HealthCheck
| Unrecognized

text \<open>\<^verbatim>\<open>str.split(sep)\<close> for a one-character separator.\<close>

fun split_on :: "char \<Rightarrow> string \<Rightarrow> string list" where
  "split_on sep [] = [[]]"
| "split_on sep (c # cs) =
     (if c = sep then [] # split_on sep cs
      else (case split_on sep cs of
              w # ws \<Rightarrow> (c # w) # ws
            | [] \<Rightarrow> [[c]]))"

text \<open>
  The routing decision of the bus-side \<^verbatim>\<open>_on_message\<close>: which branch is taken and the
  identifiers read from the topic (\<^verbatim>\<open>parts[-2]\<close> and \<^verbatim>\<open>parts[-1]\<close>).
\<close>

definition bus_route :: "config \<Rightarrow> string \<Rightarrow> routed" where
  "bus_route cfg tp =
     (if prefix ''device/button/'' tp
      then
        let parts = split_on CHR ''/'' tp
        in if 4 \<le> length parts
           then
             let route_id = last parts; stop_id = parts ! (length parts - 2)
             in if route_id = ROUTE_ID cfg then ButtonPress stop_id route_id else Unrecognized
           else Unrecognized
      else if tp = topic_system_health then HealthCheck
      else Unrecognized)"

text \<open>
  The bus-side \<^verbatim>\<open>_on_message\<close>. The decoding is outside any \<^verbatim>\<open>try\<close>, and the
  \<^verbatim>\<open>try\<close> around \<^verbatim>\<open>json.loads\<close> catches \<^verbatim>\<open>json.JSONDecodeError\<close> only: every
  other exception reaches the caller, before the topic is looked at. The result is an
  uncaught exception or the callback it invokes, if any: the handler, its identifier
  arguments and the payload.
\<close>

definition bus_on_message ::
  "(string \<Rightarrow> loads_result) \<Rightarrow> config \<Rightarrow> 'h mqtt_client \<Rightarrow> inbound \<Rightarrow>
   py_error + ('h \<times> string list \<times> decoded) option" where
  "bus_on_message loads cfg s msg =
     (case payload_text msg of
        None \<Rightarrow> Inl UnicodeDecodeError
      | Some payload_raw \<Rightarrow>
          (case loads payload_raw of
             Loads_raises e \<Rightarrow> Inl e
           | parsed \<Rightarrow>
               let payload = (case parsed of Loaded j \<Rightarrow> Parsed j | _ \<Rightarrow> Raw payload_raw)
               in Inr (case bus_route cfg (topic msg) of
                         ButtonPress stop_id route_id \<Rightarrow>
                           (case message_callbacks s ''route_call'' of
                              None \<Rightarrow> None
                            | Some callback \<Rightarrow> Some (callback, [stop_id], payload))
                       | HealthCheck \<Rightarrow>
                           (case message_callbacks s ''system_health'' of
                              None \<Rightarrow> None
                            | Some callback \<Rightarrow> Some (callback, [], payload))
                       | _ \<Rightarrow> None)))"

definition stop_route :: "config \<Rightarrow> string \<Rightarrow> routed" where
  "stop_route cfg tp =
     (if prefix (''device/led/'' @ STOP_ID cfg @ ''/'') tp
      then ControlCommand (last (split_on CHR ''/'' tp))
      else if tp = ''system/health'' then HealthCheck
      else Unrecognized)"

text \<open>
  The stop-side \<^verbatim>\<open>_on_message\<close>: decoding, parsing and dispatch are inside one
  \<^verbatim>\<open>try\<close> that catches \<^verbatim>\<open>Exception\<close>; any exception is logged and the message is
  dropped.
\<close>

definition stop_on_message ::
  "(string \<Rightarrow> loads_result) \<Rightarrow> config \<Rightarrow> 'h mqtt_client \<Rightarrow> inbound \<Rightarrow>
   py_error + ('h \<times> string list \<times> decoded) option" where
  "stop_on_message loads cfg s msg =
     (case payload_text msg of
        None \<Rightarrow> Inr None
      | Some payload_raw \<Rightarrow>
          (case loads payload_raw of
             JSONDecodeError \<Rightarrow> Inr None
           | Loads_raises e \<Rightarrow> Inr None
           | Loaded payload \<Rightarrow>
               Inr (case stop_route cfg (topic msg) of
                      ControlCommand route_id \<Rightarrow>
                        (case message_callbacks s ''led_control'' of
                           None \<Rightarrow> None
                         | Some callback \<Rightarrow> Some (callback, [route_id], Parsed payload))
                    | HealthCheck \<Rightarrow>
                        (case message_callbacks s ''system_health'' of
                           None \<Rightarrow> None
                         | Some callback \<Rightarrow> Some (callback, [], Parsed payload))
                    | _ \<Rightarrow> None)))"

text \<open>
  A stand-in for \<^verbatim>\<open>json.loads\<close>, used at four texts only: two documents, a text of
  1000 opening brackets, on which the parser exceeds the recursion limit, and a text
  that is not JSON.
\<close>

definition deep_brackets :: string where
  "deep_brackets = replicate 1000 (CHR ''['')"

definition demo_loads :: "string \<Rightarrow> loads_result" where
  "demo_loads text =
     (if text = ''null'' then Loaded JNull
      else if text = ''true'' then Loaded (JBool True)
      else if text = deep_brackets then Loads_raises RecursionError
      else JSONDecodeError)"

datatype bus_handler = On_route_call | On_bus_system_health

section \<open>Properties of the bridge\<close>

subsection \<open>Button press to publish to feedback\<close>

lemma setup_event_handlers_registers:
  "routes r = Some rcfg \<Longrightarrow>
   button_callbacks (fst (setup_event_handlers routes sys)) r = Some On_button_pressed"
  by (simp add: setup_event_handlers_def)

lemma set_led_button_callbacks:
  "button_callbacks (snd (set_led env s r b)) = button_callbacks s"
  by (simp add: set_led_def split: option.splits)

lemma button_callback_starts_handler:
  assumes "DEBOUNCE_TIME env \<le> now - (case last_button_press g r of None \<Rightarrow> 0 | Some t \<Rightarrow> t)"
    and "routes_config g r = Some rcfg" and "button_callbacks g r = Some h"
  shows "snd (button_callback env now g r ch) = Some (h, r, rcfg)"
  using assms
  by (simp add: button_callback_def Let_def set_led_button_callbacks)

lemma publish_button_press_transport:
  "transport (snd (publish_button_press cfg m r n c outcome)) =
     (if is_connected m \<and> client m
      then transport m @ [(True, Publish (stop_topic_button_press cfg @ ''/'' @ r) (Button_press r n c) 1 False)]
      else transport m)"
  by (simp add: publish_button_press_def transport_do_def Let_def split: publish_outcome.splits)

lemma publish_button_press_result:
  "fst (publish_button_press cfg m r n c outcome) \<longleftrightarrow> is_connected m \<and> client m \<and> outcome = Rc 0"
  by (auto simp: publish_button_press_def Let_def split: publish_outcome.splits)

text \<open>
  A stop whose GPIO controller is initialised (edge detection armed for route 1) and
  whose client is connected, before \<^verbatim>\<open>_setup_event_handlers\<close> has run; and a started stop
  whose route dictionary has no \<^verbatim>\<open>color\<close>.
\<close>

definition unwired_stop :: "stop_handler gpio_controller \<times> stop_handler mqtt_client" where
  "unwired_stop = (initialize_route (gpio_init demo_routes) ''1'', stop_connected demo_cfg)"

definition colourless_routes :: "route_id \<rightharpoonup> route_config" where
  "colourless_routes =
     [''1'' \<mapsto> \<lparr>name = ''1'', color = None, button_pin = 18, led_pin = 19\<rparr>]"

definition colourless_stop :: "stop_handler gpio_controller \<times> stop_handler mqtt_client" where
  "colourless_stop =
     setup_event_handlers colourless_routes
       (initialize_route (gpio_init colourless_routes) ''1'', stop_connected demo_cfg)"

text \<open>
  C7, refuted as stated. An edge at time 10 on route 1 is accepted in both systems (the
  stored timestamp becomes 10), but no publish call is made (the client, its transport
  calls included, is as before) and no feedback pattern is started: in the first
  system no handler is registered yet, so \<^verbatim>\<open>_button_callback\<close> starts no thread; in the
  second the handler raises \<^verbatim>\<open>KeyError\<close> on \<^verbatim>\<open>route_config['color']\<close> before the call.
\<close>

theorem accepted_edge_without_publish_counterexample:
  "last_button_press (fst (fst (on_physical_edge demo_env demo_cfg 10 unwired_stop ''1'' 18 (Rc 0)))) ''1''
     = Some 10 \<and>
   snd (fst (on_physical_edge demo_env demo_cfg 10 unwired_stop ''1'' 18 (Rc 0))) = snd unwired_stop \<and>
   snd (on_physical_edge demo_env demo_cfg 10 unwired_stop ''1'' 18 (Rc 0)) = None \<and>
   last_button_press (fst (fst (on_physical_edge demo_env demo_cfg 10 colourless_stop ''1'' 18 (Rc 0)))) ''1''
     = Some 10 \<and>
   snd (fst (on_physical_edge demo_env demo_cfg 10 colourless_stop ''1'' 18 (Rc 0))) = snd colourless_stop \<and>
   snd (on_physical_edge demo_env demo_cfg 10 colourless_stop ''1'' 18 (Rc 0)) = None"
  by (simp add: on_physical_edge_def on_button_pressed_def button_callback_def set_led_def
      unwired_stop_def colourless_stop_def setup_event_handlers_def initialize_route_def
      gpio_init_def demo_routes_def colourless_routes_def demo_env_def Let_def)

text \<open>
  C7, amended. An accepted edge on a configured channel for which the button handler is
  registered (\<^verbatim>\<open>_setup_event_handlers\<close> registers it for every configured route) and
  whose route dictionary has a \<^verbatim>\<open>color\<close> starts that handler once, and the handler
  makes exactly one publish call, \<^verbatim>\<open>publish_button_press\<close> for that channel: the client
  state after the edge is the state after that one call. The blink it then starts is
  determined by the boolean the call returned: \<^verbatim>\<open>True\<close> gives duration 1.0 and interval
  0.2, \<^verbatim>\<open>False\<close> gives duration 2.0 and interval 0.1. The call returns \<^verbatim>\<open>True\<close> exactly
  when the session is connected and the transport reports success; it reaches the
  transport once when the session is connected and not at all otherwise.
\<close>

theorem accepted_edge_one_publish_then_feedback:
  assumes "DEBOUNCE_TIME env \<le> now - (case last_button_press g r of None \<Rightarrow> 0 | Some t \<Rightarrow> t)"
    and "routes_config g r = Some rcfg"
    and "button_callbacks g r = Some On_button_pressed"
    and "color rcfg = Some c"
  shows "on_physical_edge env cfg now (g, m) r ch outcome =
           ((fst (button_callback env now g r ch),
             snd (publish_button_press cfg m r (name rcfg) c outcome)),
            Some (if fst (publish_button_press cfg m r (name rcfg) c outcome)
                  then (r, 1.0, 0.2) else (r, 2.0, 0.1))) \<and>
         (fst (publish_button_press cfg m r (name rcfg) c outcome)
            \<longleftrightarrow> is_connected m \<and> client m \<and> outcome = Rc 0) \<and>
         transport (snd (publish_button_press cfg m r (name rcfg) c outcome)) =
           (if is_connected m \<and> client m
            then transport m @
                   [(True, Publish (stop_topic_button_press cfg @ ''/'' @ r)
                             (Button_press r (name rcfg) c) 1 False)]
            else transport m)"
proof -
  have "snd (button_callback env now g r ch) = Some (On_button_pressed, r, rcfg)"
    using assms(1-3) by (rule button_callback_starts_handler)
  then obtain g' where bc: "button_callback env now g r ch = (g', Some (On_button_pressed, r, rcfg))"
    by (cases "button_callback env now g r ch") simp
  have "on_physical_edge env cfg now (g, m) r ch outcome =
           ((fst (button_callback env now g r ch),
             snd (publish_button_press cfg m r (name rcfg) c outcome)),
            Some (if fst (publish_button_press cfg m r (name rcfg) c outcome)
                  then (r, 1.0, 0.2) else (r, 2.0, 0.1)))"
    by (simp add: on_physical_edge_def on_button_pressed_def Let_def bc assms(4))
  then show ?thesis
    using publish_button_press_result [of cfg m r "name rcfg" c outcome]
      publish_button_press_transport [of cfg m r "name rcfg" c outcome]
    by blast
qed

text \<open>The stop after start-up with one route, connected, and an edge 10 seconds later.\<close>

definition demo_stop :: "stop_handler gpio_controller \<times> stop_handler mqtt_client" where
  "demo_stop =
     setup_event_handlers demo_routes
       (initialize_route (gpio_init demo_routes) ''1'', stop_connected demo_cfg)"

theorem accepted_edge_one_publish_then_feedback_witness:
  "DEBOUNCE_TIME demo_env
     \<le> 10 - (case last_button_press (fst demo_stop) ''1'' of None \<Rightarrow> 0 | Some t \<Rightarrow> t) \<and>
   routes_config (fst demo_stop) ''1''
     = Some \<lparr>name = ''1'', color = Some ''#FF0000'', button_pin = 18, led_pin = 19\<rparr> \<and>
   button_callbacks (fst demo_stop) ''1'' = Some On_button_pressed \<and>
   snd (on_physical_edge demo_env demo_cfg 10 (fst demo_stop, snd demo_stop) ''1'' 18 (Rc 0))
     = Some (''1'', 1.0, 0.2) \<and>
   snd (on_physical_edge demo_env demo_cfg 10 (fst demo_stop, snd demo_stop) ''1'' 18 (Rc 1))
     = Some (''1'', 2.0, 0.1) \<and>
   snd (on_physical_edge demo_env demo_cfg 10 (fst demo_stop, stop_on_disconnect (snd demo_stop) 1) ''1'' 18 (Rc 0))
     = Some (''1'', 2.0, 0.1)"
proof -
  let ?cfg = "\<lparr>name = ''1'', color = Some ''#FF0000'', button_pin = 18, led_pin = 19\<rparr>"
  have a: "DEBOUNCE_TIME demo_env
      \<le> 10 - (case last_button_press (fst demo_stop) ''1'' of None \<Rightarrow> 0 | Some t \<Rightarrow> t)"
    by (simp add: demo_stop_def setup_event_handlers_def initialize_route_def
        gpio_init_def demo_env_def)
  have b: "routes_config (fst demo_stop) ''1'' = Some ?cfg"
    by (simp add: demo_stop_def setup_event_handlers_def initialize_route_def gpio_init_def
        demo_routes_def)
  have c: "button_callbacks (fst demo_stop) ''1'' = Some On_button_pressed"
    by (simp add: demo_stop_def setup_event_handlers_def demo_routes_def)
  have col: "color ?cfg = Some ''#FF0000''" by simp
  have m: "is_connected (snd demo_stop)" "client (snd demo_stop)"
    by (simp_all add: demo_stop_def setup_event_handlers_def register_callback_def
        stop_connected_flags)
  have d: "\<not> is_connected (stop_on_disconnect (snd demo_stop) 1)"
    by (simp add: stop_on_disconnect_def)
  have ok: "snd (on_physical_edge demo_env demo_cfg 10 (fst demo_stop, snd demo_stop) ''1'' 18 (Rc 0))
     = Some (''1'', 1.0, 0.2)"
    using accepted_edge_one_publish_then_feedback [OF a b c col, of demo_cfg "snd demo_stop" 18 "Rc 0"] m
    by simp
  have rejected: "snd (on_physical_edge demo_env demo_cfg 10 (fst demo_stop, snd demo_stop) ''1'' 18 (Rc 1))
     = Some (''1'', 2.0, 0.1)"
    using accepted_edge_one_publish_then_feedback [OF a b c col, of demo_cfg "snd demo_stop" 18 "Rc 1"] m
    by simp
  have dropped: "snd (on_physical_edge demo_env demo_cfg 10 (fst demo_stop, stop_on_disconnect (snd demo_stop) 1) ''1'' 18 (Rc 0))
     = Some (''1'', 2.0, 0.1)"
    using accepted_edge_one_publish_then_feedback
      [OF a b c col, of demo_cfg "stop_on_disconnect (snd demo_stop) 1" 18 "Rc 0"] d
    by simp
  from a b c ok rejected dropped show ?thesis by blast
qed

subsection \<open>Topic routing on the bus\<close>

lemma button_topic_parts:
  "split_on CHR ''/'' ''device/button/STOP1/100'' = [''device'', ''button'', ''STOP1'', ''100'']"
  by simp

lemma bus_route_button_topic:
  "bus_route cfg ''device/button/STOP1/100'' =
     (if ROUTE_ID cfg = ''100'' then ButtonPress ''STOP1'' ''100'' else Unrecognized)"
  unfolding bus_route_def button_topic_parts Let_def by auto

text \<open>
  C6. The routing decision depends on the topic and the configured route id only.
  Topic \<^verbatim>\<open>device/button/STOP1/100\<close> with configured route id \<^verbatim>\<open>100\<close> is a button
  press with stop id \<^verbatim>\<open>STOP1\<close> and route id \<^verbatim>\<open>100\<close>, the last two segments of the topic,
  and the registered route-call handler is invoked with the stop id and the payload
  (parsed, or raw when the parser reports a decode error); with any other configured
  route id the topic is unrecognised and no callback is invoked.
\<close>

theorem bus_route_button_press:
  "(ROUTE_ID cfg = ROUTE_ID cfg' \<longrightarrow> bus_route cfg tp = bus_route cfg' tp) \<and>
   (ROUTE_ID cfg = ''100'' \<longrightarrow>
      bus_route cfg ''device/button/STOP1/100'' = ButtonPress ''STOP1'' ''100'' \<and>
      (message_callbacks s ''route_call'' = Some h \<longrightarrow>
         (loads raw = Loaded j \<longrightarrow>
            bus_on_message loads cfg s \<lparr>topic = ''device/button/STOP1/100'', payload_text = Some raw\<rparr>
              = Inr (Some (h, [''STOP1''], Parsed j))) \<and>
         (loads raw = JSONDecodeError \<longrightarrow>
            bus_on_message loads cfg s \<lparr>topic = ''device/button/STOP1/100'', payload_text = Some raw\<rparr>
              = Inr (Some (h, [''STOP1''], Raw raw))))) \<and>
   (ROUTE_ID cfg \<noteq> ''100'' \<longrightarrow>
      bus_route cfg ''device/button/STOP1/100'' = Unrecognized \<and>
      ((\<forall>e. loads raw \<noteq> Loads_raises e) \<longrightarrow>
         bus_on_message loads cfg s \<lparr>topic = ''device/button/STOP1/100'', payload_text = Some raw\<rparr>
           = Inr None) \<and>
      (\<forall>invoked.
         bus_on_message loads cfg s \<lparr>topic = ''device/button/STOP1/100'', payload_text = Some raw\<rparr>
           \<noteq> Inr (Some invoked)))"
proof (intro conjI impI allI)
  assume "ROUTE_ID cfg = ROUTE_ID cfg'"
  then show "bus_route cfg tp = bus_route cfg' tp"
    by (simp add: bus_route_def Let_def)
next
  assume "ROUTE_ID cfg = ''100''"
  then show "bus_route cfg ''device/button/STOP1/100'' = ButtonPress ''STOP1'' ''100''"
    by (simp add: bus_route_button_topic)
next
  assume "ROUTE_ID cfg = ''100''" and "message_callbacks s ''route_call'' = Some h"
    and "loads raw = Loaded j"
  then show "bus_on_message loads cfg s \<lparr>topic = ''device/button/STOP1/100'', payload_text = Some raw\<rparr>
           = Inr (Some (h, [''STOP1''], Parsed j))"
    by (simp add: bus_on_message_def bus_route_button_topic)
next
  assume "ROUTE_ID cfg = ''100''" and "message_callbacks s ''route_call'' = Some h"
    and "loads raw = JSONDecodeError"
  then show "bus_on_message loads cfg s \<lparr>topic = ''device/button/STOP1/100'', payload_text = Some raw\<rparr>
           = Inr (Some (h, [''STOP1''], Raw raw))"
    by (simp add: bus_on_message_def bus_route_button_topic)
next
  assume "ROUTE_ID cfg \<noteq> ''100''"
  then show "bus_route cfg ''device/button/STOP1/100'' = Unrecognized"
    by (simp add: bus_route_button_topic)
next
  assume "ROUTE_ID cfg \<noteq> ''100''" and "\<forall>e. loads raw \<noteq> Loads_raises e"
  then show "bus_on_message loads cfg s \<lparr>topic = ''device/button/STOP1/100'', payload_text = Some raw\<rparr>
        = Inr None"
    by (cases "loads raw") (simp_all add: bus_on_message_def bus_route_button_topic)
next
  fix invoked
  assume "ROUTE_ID cfg \<noteq> ''100''"
  then show "bus_on_message loads cfg s \<lparr>topic = ''device/button/STOP1/100'', payload_text = Some raw\<rparr>
        \<noteq> Inr (Some invoked)"
    by (cases "loads raw") (simp_all add: bus_on_message_def bus_route_button_topic)
qed

definition other_cfg :: config where
  "other_cfg = \<lparr>BUS_ID = ''BUS2'', ROUTE_ID = ''7'', STOP_ID = ''STOP001'', HEARTBEAT_INTERVAL = 30\<rparr>"

theorem bus_route_button_press_witness:
  "ROUTE_ID demo_cfg = ''100'' \<and> ROUTE_ID other_cfg \<noteq> ''100'' \<and>
   bus_route demo_cfg ''device/button/STOP1/100'' = ButtonPress ''STOP1'' ''100'' \<and>
   bus_on_message demo_loads demo_cfg (register_callback mqtt_init ''route_call'' On_route_call)
       \<lparr>topic = ''device/button/STOP1/100'', payload_text = Some ''null''\<rparr>
     = Inr (Some (On_route_call, [''STOP1''], Parsed JNull)) \<and>
   bus_route other_cfg ''device/button/STOP1/100'' = Unrecognized \<and>
   bus_on_message demo_loads other_cfg (register_callback mqtt_init ''route_call'' On_route_call)
       \<lparr>topic = ''device/button/STOP1/100'', payload_text = Some ''null''\<rparr>
     = Inr None"
proof -
  let ?s = "register_callback mqtt_init ''route_call'' On_route_call"
  have a: "ROUTE_ID demo_cfg = ''100''" by (simp add: demo_cfg_def)
  have b: "ROUTE_ID other_cfg \<noteq> ''100''" by (simp add: other_cfg_def)
  have c: "message_callbacks ?s ''route_call'' = Some On_route_call"
    by (simp add: register_callback_def)
  have l: "demo_loads ''null'' = Loaded JNull" by (simp add: demo_loads_def)
  from l have nr: "\<forall>e. demo_loads ''null'' \<noteq> Loads_raises e" by simp
  from bus_route_button_press
      [where cfg = demo_cfg and cfg' = demo_cfg and tp = "''device/button/STOP1/100''" and s = ?s
         and h = On_route_call and loads = demo_loads and raw = "''null''" and j = JNull]
    a c l
  have 1: "bus_route demo_cfg ''device/button/STOP1/100'' = ButtonPress ''STOP1'' ''100'' \<and>
           bus_on_message demo_loads demo_cfg ?s
             \<lparr>topic = ''device/button/STOP1/100'', payload_text = Some ''null''\<rparr>
             = Inr (Some (On_route_call, [''STOP1''], Parsed JNull))"
    by blast
  from bus_route_button_press
      [where cfg = other_cfg and cfg' = other_cfg and tp = "''device/button/STOP1/100''" and s = ?s
         and h = On_route_call and loads = demo_loads and raw = "''null''" and j = JNull]
    b nr
  have 2: "bus_route other_cfg ''device/button/STOP1/100'' = Unrecognized \<and>
           bus_on_message demo_loads other_cfg ?s
             \<lparr>topic = ''device/button/STOP1/100'', payload_text = Some ''null''\<rparr> = Inr None"
    by blast
  from a b 1 2 show ?thesis by blast
qed

subsection \<open>Payloads that do not parse\<close>

lemma deep_brackets_head: "deep_brackets = CHR ''['' # replicate 999 (CHR ''['')"
proof -
  have "(1000::nat) = Suc 999" by simp
  then show ?thesis
    unfolding deep_brackets_def by (simp only: replicate_Suc)
qed

lemma demo_loads_null: "demo_loads ''null'' = Loaded JNull"
  by (simp add: demo_loads_def)

lemma demo_loads_not_json: "demo_loads ''not json'' = JSONDecodeError"
  by (simp add: demo_loads_def deep_brackets_head)

lemma demo_loads_deep: "demo_loads deep_brackets = Loads_raises RecursionError"
proof -
  have "deep_brackets \<noteq> ''null''" and "deep_brackets \<noteq> ''true''"
    by (simp_all add: deep_brackets_head)
  then show ?thesis by (simp add: demo_loads_def)
qed

text \<open>
  C4, refuted as stated, at three inputs. On the stop device a payload that does not
  parse is not passed on: with the LED-control handler registered, a well-formed
  payload on the control topic reaches the handler, while for a malformed one no
  callback is invoked. On the bus device a payload on which the parser fails with an
  exception other than a decode error, and a payload that is not valid UTF-8, raise
  to the caller.
\<close>

theorem malformed_payload_counterexample:
  "demo_loads ''not json'' = JSONDecodeError \<and>
   stop_on_message demo_loads demo_cfg (register_callback mqtt_init ''led_control'' On_led_control)
       \<lparr>topic = ''device/led/STOP001/1'', payload_text = Some ''null''\<rparr>
     = Inr (Some (On_led_control, [''1''], Parsed JNull)) \<and>
   stop_on_message demo_loads demo_cfg (register_callback mqtt_init ''led_control'' On_led_control)
       \<lparr>topic = ''device/led/STOP001/1'', payload_text = Some ''not json''\<rparr>
     = Inr None \<and>
   demo_loads deep_brackets = Loads_raises RecursionError \<and>
   bus_on_message demo_loads demo_cfg (register_callback mqtt_init ''route_call'' On_route_call)
       \<lparr>topic = ''device/button/STOP1/100'', payload_text = Some deep_brackets\<rparr>
     = Inl RecursionError \<and>
   bus_on_message demo_loads demo_cfg (register_callback mqtt_init ''route_call'' On_route_call)
       \<lparr>topic = ''device/button/STOP1/100'', payload_text = None\<rparr>
     = Inl UnicodeDecodeError"
proof (intro conjI)
  show "demo_loads ''not json'' = JSONDecodeError"
    by (rule demo_loads_not_json)
  show "stop_on_message demo_loads demo_cfg (register_callback mqtt_init ''led_control'' On_led_control)
       \<lparr>topic = ''device/led/STOP001/1'', payload_text = Some ''null''\<rparr>
     = Inr (Some (On_led_control, [''1''], Parsed JNull))"
    by (simp add: stop_on_message_def demo_loads_null stop_route_def demo_cfg_def
        register_callback_def)
  show "stop_on_message demo_loads demo_cfg (register_callback mqtt_init ''led_control'' On_led_control)
       \<lparr>topic = ''device/led/STOP001/1'', payload_text = Some ''not json''\<rparr>
     = Inr None"
    by (simp add: stop_on_message_def demo_loads_not_json)
  show "demo_loads deep_brackets = Loads_raises RecursionError"
    by (rule demo_loads_deep)
  show "bus_on_message demo_loads demo_cfg (register_callback mqtt_init ''route_call'' On_route_call)
       \<lparr>topic = ''device/button/STOP1/100'', payload_text = Some deep_brackets\<rparr>
     = Inl RecursionError"
    by (simp add: bus_on_message_def demo_loads_deep)
  show "bus_on_message demo_loads demo_cfg (register_callback mqtt_init ''route_call'' On_route_call)
       \<lparr>topic = ''device/button/STOP1/100'', payload_text = None\<rparr>
     = Inl UnicodeDecodeError"
    by (simp add: bus_on_message_def)
qed

text \<open>
  C4, amended. For an inbound message whose payload decodes to text on which the
  parser reports a decode error (\<^verbatim>\<open>json.JSONDecodeError\<close>), neither device raises an
  error to the caller. On the bus the payload handed on is the raw string: the handler
  registered for the routed event (route call or system health) is invoked with it. On
  the stop the failure is caught and the message is dropped without a callback.
\<close>

theorem malformed_payload_handling:
  assumes "payload_text msg = Some raw" and "loads raw = JSONDecodeError"
  shows "(\<exists>r. bus_on_message loads cfg s msg = Inr r) \<and>
         (bus_route cfg (topic msg) = ButtonPress stop_id route_id \<longrightarrow>
            message_callbacks s ''route_call'' = Some h \<longrightarrow>
            bus_on_message loads cfg s msg = Inr (Some (h, [stop_id], Raw raw))) \<and>
         (bus_route cfg (topic msg) = HealthCheck \<longrightarrow>
            message_callbacks s ''system_health'' = Some h \<longrightarrow>
            bus_on_message loads cfg s msg = Inr (Some (h, [], Raw raw))) \<and>
         stop_on_message loads cfg s' msg = Inr None"
  using assms by (simp add: bus_on_message_def stop_on_message_def Let_def)

theorem malformed_payload_handling_witness:
  "payload_text \<lparr>topic = ''device/button/STOP1/100'', payload_text = Some ''not json''\<rparr> = Some ''not json'' \<and>
   payload_text \<lparr>topic = ''device/led/STOP001/1'', payload_text = Some ''not json''\<rparr> = Some ''not json'' \<and>
   demo_loads ''not json'' = JSONDecodeError \<and>
   bus_on_message demo_loads demo_cfg (register_callback mqtt_init ''route_call'' On_route_call)
       \<lparr>topic = ''device/button/STOP1/100'', payload_text = Some ''not json''\<rparr>
     = Inr (Some (On_route_call, [''STOP1''], Raw ''not json'')) \<and>
   stop_on_message demo_loads demo_cfg (register_callback mqtt_init ''led_control'' On_led_control)
       \<lparr>topic = ''device/led/STOP001/1'', payload_text = Some ''not json''\<rparr>
     = Inr None"
proof -
  let ?msg = "\<lparr>topic = ''device/button/STOP1/100'', payload_text = Some ''not json''\<rparr>"
  let ?led = "\<lparr>topic = ''device/led/STOP001/1'', payload_text = Some ''not json''\<rparr>"
  let ?s = "register_callback mqtt_init ''route_call'' On_route_call"
  let ?s' = "register_callback mqtt_init ''led_control'' On_led_control"
  have p: "payload_text ?msg = Some ''not json''" by simp
  have p': "payload_text ?led = Some ''not json''" by simp
  have l: "demo_loads ''not json'' = JSONDecodeError" by (rule demo_loads_not_json)
  have r: "bus_route demo_cfg (topic ?msg) = ButtonPress ''STOP1'' ''100''"
    by (simp add: bus_route_button_topic demo_cfg_def)
  have c: "message_callbacks ?s ''route_call'' = Some On_route_call"
    by (simp add: register_callback_def)
  from malformed_payload_handling
      [where msg = ?msg and raw = "''not json''" and loads = demo_loads and cfg = demo_cfg
         and s = ?s and stop_id = "''STOP1''" and route_id = "''100''" and h = On_route_call
         and s' = ?s', OF p l]
    r c
  have bus: "bus_on_message demo_loads demo_cfg ?s ?msg
      = Inr (Some (On_route_call, [''STOP1''], Raw ''not json''))"
    by blast
  from malformed_payload_handling
      [where msg = ?led and raw = "''not json''" and loads = demo_loads and cfg = demo_cfg
         and s = ?s and stop_id = "''STOP1''" and route_id = "''100''" and h = On_route_call
         and s' = ?s', OF p' l]
  have stop: "stop_on_message demo_loads demo_cfg ?s' ?led = Inr None"
    by blast
  from p p' l bus stop show ?thesis by blast
qed

end
